theory Spec2Isabelle
  imports Complex_Main
begin

section \<open>Numbers\<close>

text \<open>
  A JavaScript \<^verbatim>\<open>number\<close> is modelled as a real: rounding of IEEE doubles is not
  modelled, and the infinities do not exist, so \<^verbatim>\<open>isFinite\<close> is always true. The one
  place where the aggregator divides by a possibly zero length (which yields NaN in
  JavaScript) is made explicit with an option; its other divisors, the first median and
  the last price, are not zero where the division is evaluated. \<^verbatim>\<open>Date.now()\<close> is a
  parameter \<open>now\<close> (milliseconds, an integer) of every operation that reads the clock.

  Because rounding is not modelled, a number computed by the model is the exact value
  of which the source computes a rounded one, and a comparison whose two sides are
  within rounding distance of each other may come out differently in the source. The
  statements below that evaluate a comparison of computed numbers do so at inputs where
  the two sides are far apart; the general statements take the outcome of such a
  comparison as a hypothesis or do not depend on it.
\<close>

definition truthy :: "real \<Rightarrow> bool" where
  \<comment> \<open>\<^verbatim>\<open>if (x)\<close> on a number: false exactly for 0 (and NaN, which reals do not have)\<close>
  "truthy x \<longleftrightarrow> x \<noteq> 0"

section \<open>Price aggregator (src/pricing/PriceAggregator.ts)\<close>

record PriceData =
  price :: real
  source :: string
  confidence :: real
  timestamp :: int

record AggregatedPrice =
  midPrice :: real
  bestBid :: real
  bestAsk :: real
  sources :: "PriceData list"
  confidence :: "real option"  \<comment> \<open>\<open>None\<close> is NaN (mean of an empty list)\<close>
  timestamp :: int

record PriceAggregatorConfig =
  cacheDurationMs :: int
  minSources :: nat
  maxPriceDeviationPercent :: real
  spreadPercent :: real
  enableCircuitBreaker :: bool
  circuitBreakerThresholdPercent :: real

text \<open>The mutable fields of the class: the cache and the last accepted price.\<close>

record PriceAggregator =
  cache :: "string \<rightharpoonup> AggregatedPrice"
  lastPrice :: "real option"

text \<open>
  What the four feeds answer in one call of \<open>getPrice\<close>: \<open>None\<close> is a feed that
  returned \<^verbatim>\<open>null\<close> or threw, \<open>Some p\<close> the raw number it returned.
\<close>

record FeedResults =
  jupiterFeed :: "real option"
  pythFeed :: "real option"
  birdeyeFeed :: "real option"
  dexscreenerFeed :: "real option"

datatype error = InsufficientSources nat nat

definition fetchPrice :: "string \<Rightarrow> real \<Rightarrow> real option \<Rightarrow> int \<Rightarrow> PriceData option" where
  \<comment> \<open>the common body of the four \<^verbatim>\<open>fetch...Price\<close> methods\<close>
  "fetchPrice name conf raw now =
     (case raw of
        None \<Rightarrow> None
      | Some p \<Rightarrow>
          if truthy p \<and> p > 0
          then Some \<lparr>price = p, source = name, confidence = conf, timestamp = now\<rparr>
          else None)"

definition fetchJupiterPrice :: "FeedResults \<Rightarrow> int \<Rightarrow> PriceData option" where
  "fetchJupiterPrice feeds now = fetchPrice ''jupiter'' 0.9 (jupiterFeed feeds) now"

definition fetchPythPrice :: "FeedResults \<Rightarrow> int \<Rightarrow> PriceData option" where
  "fetchPythPrice feeds now = fetchPrice ''pyth'' 0.95 (pythFeed feeds) now"

definition fetchBirdeyePrice :: "FeedResults \<Rightarrow> int \<Rightarrow> PriceData option" where
  "fetchBirdeyePrice feeds now = fetchPrice ''birdeye'' 0.85 (birdeyeFeed feeds) now"

definition fetchDexscreenerPrice :: "FeedResults \<Rightarrow> int \<Rightarrow> PriceData option" where
  "fetchDexscreenerPrice feeds now = fetchPrice ''dexscreener'' 0.8 (dexscreenerFeed feeds) now"

definition validPrices :: "FeedResults \<Rightarrow> int \<Rightarrow> PriceData list" where
  \<comment> \<open>the fulfilled, non-null results, in the order of \<^verbatim>\<open>pricePromises\<close>\<close>
  "validPrices feeds now =
     List.map_filter (\<lambda>r. r)
       [fetchJupiterPrice feeds now, fetchPythPrice feeds now,
        fetchBirdeyePrice feeds now, fetchDexscreenerPrice feeds now]"

definition calculateMedian :: "real list \<Rightarrow> real" where
  "calculateMedian values =
     (if length values = 0 then 0
      else
        let sorted = sort values;
            mid = length sorted div 2
        in if length sorted mod 2 = 0
           then (sorted ! (mid - 1) + sorted ! mid) / 2
           else sorted ! mid)"

definition createAggregatedPrice ::
  "PriceAggregatorConfig \<Rightarrow> int \<Rightarrow> real \<Rightarrow> PriceData list \<Rightarrow> AggregatedPrice" where
  "createAggregatedPrice cfg now mid srcs =
     (let spreadHalf = spreadPercent cfg / 100 / 2;
          avgConfidence =
            (if srcs = [] then None
             else Some (foldl (\<lambda>sum s. sum + PriceData.confidence s) 0 srcs
                        / real (length srcs)))
      in \<lparr>midPrice = mid,
          bestBid = mid * (1 - spreadHalf),
          bestAsk = mid * (1 + spreadHalf),
          sources = srcs,
          confidence = avgConfidence,
          timestamp = now\<rparr>)"

definition createFallbackPrice :: "PriceAggregatorConfig \<Rightarrow> int \<Rightarrow> real \<Rightarrow> AggregatedPrice" where
  "createFallbackPrice cfg now p =
     (let spreadHalf = spreadPercent cfg / 100 / 2
      in \<lparr>midPrice = p,
          bestBid = p * (1 - spreadHalf),
          bestAsk = p * (1 + spreadHalf),
          sources = [\<lparr>price = p, source = ''fallback'', confidence = 0.5, timestamp = now\<rparr>],
          confidence = Some 0.5,
          timestamp = now\<rparr>)"

definition cacheKey :: "string \<Rightarrow> string \<Rightarrow> string" where
  "cacheKey baseMint quoteMint = baseMint @ ''_'' @ quoteMint"

definition cacheHit ::
  "PriceAggregatorConfig \<Rightarrow> int \<Rightarrow> string \<Rightarrow> bool \<Rightarrow> PriceAggregator \<Rightarrow> AggregatedPrice option" where
  \<comment> \<open>the cache check at the head of \<open>getPrice\<close>: \<open>Some\<close> is the early return\<close>
  "cacheHit cfg now key forceRefresh st =
     (if \<not> forceRefresh then
        (case cache st key of
           None \<Rightarrow> None
         | Some cached \<Rightarrow>
             if now - AggregatedPrice.timestamp cached < cacheDurationMs cfg
             then Some cached else None)
      else None)"

text \<open>The local values of \<open>getPrice\<close>, named as in the source.\<close>

definition medianPrice :: "PriceData list \<Rightarrow> real" where
  "medianPrice valid = calculateMedian (sort (map price valid))"

definition filteredPrices :: "PriceAggregatorConfig \<Rightarrow> PriceData list \<Rightarrow> PriceData list" where
  \<comment> \<open>the deviation is computed over the reals: a sample whose deviation is within
      rounding distance of \<open>maxPriceDeviationPercent\<close> may be classified differently by
      the source\<close>
  "filteredPrices cfg valid =
     filter (\<lambda>p. \<bar>(price p - medianPrice valid) / medianPrice valid\<bar> * 100
                  \<le> maxPriceDeviationPercent cfg) valid"

definition finalMedian :: "PriceAggregatorConfig \<Rightarrow> PriceData list \<Rightarrow> real" where
  "finalMedian cfg valid = calculateMedian (sort (map price (filteredPrices cfg valid)))"

definition priceChange :: "real \<Rightarrow> real \<Rightarrow> real" where
  "priceChange final prev = \<bar>(final - prev) / prev\<bar> * 100"

definition dampenedPrice :: "real \<Rightarrow> real \<Rightarrow> real" where
  "dampenedPrice final prev = prev * (if final > prev then 1.2 else 0.8)"

definition circuitBreakerCheck ::
  "PriceAggregatorConfig \<Rightarrow> PriceAggregator \<Rightarrow> real \<Rightarrow> real option" where
  \<comment> \<open>the circuit breaker check of \<open>getPrice\<close>: \<open>Some d\<close> when it triggers and the
      dampened price \<open>d\<close> is returned, \<open>None\<close> when execution falls through\<close>
  "circuitBreakerCheck cfg st final =
     (case lastPrice st of
        None \<Rightarrow> None
      | Some prev \<Rightarrow>
          if enableCircuitBreaker cfg \<and> truthy prev
          then (if priceChange final prev > circuitBreakerThresholdPercent cfg
                then Some (dampenedPrice final prev) else None)
          else None)"

definition getPrice ::
  "PriceAggregatorConfig \<Rightarrow> FeedResults \<Rightarrow> int \<Rightarrow> string \<Rightarrow> string \<Rightarrow> bool \<Rightarrow>
   PriceAggregator \<Rightarrow> (error + AggregatedPrice) \<times> PriceAggregator" where
  "getPrice cfg feeds now baseMint quoteMint forceRefresh st =
     (case cacheHit cfg now (cacheKey baseMint quoteMint) forceRefresh st of
        Some cached \<Rightarrow> (Inr cached, st)
      | None \<Rightarrow>
          let valid = validPrices feeds now in
          if length valid < minSources cfg then
            (case lastPrice st of
               None \<Rightarrow> (Inl (InsufficientSources (length valid) (minSources cfg)), st)
             | Some prev \<Rightarrow>
                 if truthy prev then (Inr (createFallbackPrice cfg now prev), st)
                 else (Inl (InsufficientSources (length valid) (minSources cfg)), st))
          else
            let filtered = filteredPrices cfg valid;
                final = finalMedian cfg valid
            in (case circuitBreakerCheck cfg st final of
                  Some dampened \<Rightarrow>
                    (Inr (createAggregatedPrice cfg now dampened filtered), st)
                | None \<Rightarrow>
                    let aggregated = createAggregatedPrice cfg now final filtered
                    in (Inr aggregated,
                        st\<lparr>lastPrice := Some final,
                           cache := (cache st)(cacheKey baseMint quoteMint \<mapsto> aggregated)\<rparr>)))"

text \<open>
  The configuration that \<^verbatim>\<open>src/index.ts\<close> passes to the aggregator when every setting
  has the default of the configuration schema (\<^verbatim>\<open>SPREAD_BPS\<close> 100,
  \<^verbatim>\<open>CIRCUIT_BREAKER_ENABLED\<close> true, \<^verbatim>\<open>CIRCUIT_BREAKER_PRICE_DEVIATION_PERCENT\<close> 50),
  and the aggregator as constructed.
\<close>

definition defaultAggregatorConfig :: PriceAggregatorConfig where
  "defaultAggregatorConfig =
     \<lparr>cacheDurationMs = 5000, minSources = 2, maxPriceDeviationPercent = 10,
      spreadPercent = 100 / 100, enableCircuitBreaker = True,
      circuitBreakerThresholdPercent = 50\<rparr>"

definition newPriceAggregator :: PriceAggregator where
  "newPriceAggregator = \<lparr>cache = Map.empty, lastPrice = None\<rparr>"

section \<open>Circuit breaker (src/safety/CircuitBreaker.ts)\<close>

record CircuitBreakerConfig =
  priceDeviationThresholdPercent :: real
  volatilityThresholdPercent :: real
  lossThresholdPercent :: real
  consecutiveFailuresThreshold :: int
  cooldownPeriodMs :: int
  gradualResumeSteps :: int
  gradualResumeIntervalMs :: int

datatype TriggerType = price_deviation | volatility | loss | failures | manual

record TriggerReason =
  type :: TriggerType
  "value" :: real
  threshold :: real
  message :: string

text \<open>
  The fields of the class. \<open>resumeInterval\<close> records whether a timer handle is stored;
  \<open>triggerReason\<close> and \<open>triggeredAt\<close> are \<open>None\<close> where the source has
  \<^verbatim>\<open>undefined\<close>.
\<close>

record CircuitBreaker =
  isOpen :: bool
  triggerReason :: "TriggerReason option"
  triggeredAt :: "int option"
  consecutiveFailures :: int
  resumeStep :: int
  resumeInterval :: bool
  priceHistory :: "real list"

definition newCircuitBreaker :: CircuitBreaker where
  \<comment> \<open>the field initialisers\<close>
  "newCircuitBreaker =
     \<lparr>isOpen = False, triggerReason = None, triggeredAt = None, consecutiveFailures = 0,
      resumeStep = 0, resumeInterval = False, priceHistory = []\<rparr>"

definition trip :: "int \<Rightarrow> TriggerReason \<Rightarrow> CircuitBreaker \<Rightarrow> CircuitBreaker" where
  "trip now reason cb =
     (if isOpen cb then cb
      else cb\<lparr>isOpen := True, triggerReason := Some reason, triggeredAt := Some now\<rparr>)"

definition manualTrip :: "int \<Rightarrow> string \<Rightarrow> CircuitBreaker \<Rightarrow> CircuitBreaker" where
  "manualTrip now msg cb =
     trip now \<lparr>type = manual, value = 0, threshold = 0, message = msg\<rparr> cb"

definition cooldownPending :: "CircuitBreakerConfig \<Rightarrow> int \<Rightarrow> CircuitBreaker \<Rightarrow> bool" where
  \<comment> \<open>the cooldown check shared by \<open>reset\<close> and \<open>gradualResume\<close>: true when the method
      returns early. \<^verbatim>\<open>if (this.triggeredAt)\<close> is false for \<^verbatim>\<open>undefined\<close> and for 0.\<close>
  "cooldownPending cfg now cb =
     (case triggeredAt cb of
        None \<Rightarrow> False
      | Some t \<Rightarrow> if t \<noteq> 0 then now - t < cooldownPeriodMs cfg else False)"

definition reset :: "CircuitBreakerConfig \<Rightarrow> int \<Rightarrow> CircuitBreaker \<Rightarrow> CircuitBreaker" where
  "reset cfg now cb =
     (if \<not> isOpen cb then cb
      else if cooldownPending cfg now cb then cb
      else cb\<lparr>isOpen := False, triggerReason := None, triggeredAt := None,
              consecutiveFailures := 0, resumeStep := 0, resumeInterval := False\<rparr>)"

definition recordFailure :: "CircuitBreaker \<Rightarrow> CircuitBreaker" where
  "recordFailure cb = cb\<lparr>consecutiveFailures := consecutiveFailures cb + 1\<rparr>"

definition recordSuccess :: "CircuitBreaker \<Rightarrow> CircuitBreaker" where
  "recordSuccess cb = cb\<lparr>consecutiveFailures := 0\<rparr>"

definition updatePriceHistory :: "real \<Rightarrow> CircuitBreaker \<Rightarrow> CircuitBreaker" where
  "updatePriceHistory p cb =
     (let h = priceHistory cb @ [p]
      in cb\<lparr>priceHistory := (if length h > 100 then tl h else h)\<rparr>)"

text \<open>
  \<open>gradualResume\<close> returns early when the breaker is not open or the cooldown has not
  elapsed; otherwise it sets \<open>resumeStep\<close> to 0 and starts an interval timer. The three
  pieces of code that the run is made of are modelled one by one: the synchronous part
  of the call (\<open>resumeStart\<close>, \<open>None\<close> is the early return), the part of a timer tick before
  the \<^verbatim>\<open>await\<close> (\<open>resumeTick\<close>, after which the callback is invoked with the new
  \<open>resumeStep\<close>), and the part after the \<^verbatim>\<open>await\<close>, run when the callback has settled
  (\<open>resumeSettle\<close>).
\<close>

definition resumeStart :: "CircuitBreakerConfig \<Rightarrow> int \<Rightarrow> CircuitBreaker \<Rightarrow> CircuitBreaker option" where
  "resumeStart cfg now cb =
     (if \<not> isOpen cb then None
      else if cooldownPending cfg now cb then None
      else Some (cb\<lparr>resumeStep := 0, resumeInterval := True\<rparr>))"

definition resumeTick :: "CircuitBreaker \<Rightarrow> CircuitBreaker" where
  "resumeTick cb = cb\<lparr>resumeStep := resumeStep cb + 1\<rparr>"

definition resumeSettle :: "CircuitBreakerConfig \<Rightarrow> int \<Rightarrow> CircuitBreaker \<Rightarrow> CircuitBreaker" where
  "resumeSettle cfg now cb =
     (if resumeStep cb \<ge> gradualResumeSteps cfg
      then reset cfg now (cb\<lparr>resumeInterval := False\<rparr>)
      else cb)"

text \<open>
  The timer does not wait for the callback: \<^verbatim>\<open>setInterval\<close> fires the next tick
  \<open>gradualResumeIntervalMs\<close> after the last one (at least 1 ms) whether the callback of an
  earlier tick has settled or not. A run is therefore a sequence of events in time. The
  callback is described by what its promise does for the arguments it is invoked with:
  it resolves or rejects after a number of milliseconds, or never settles.

  The state of a run: the breaker, the arguments of every callback invocation so far,
  the steps logged as failed (the \<^verbatim>\<open>catch\<close> block logs the value \<open>resumeStep\<close> has when
  the callback rejects), the callbacks still pending with the time at which they settle
  and whether they reject, the number of ticks fired, and whether the promise that
  \<open>gradualResume\<close> returned has resolved.
\<close>

datatype Settle = Resolves nat | Rejects nat | Never

record ResumeRun =
  breaker :: CircuitBreaker
  invoked :: "(int \<times> int) list"
  failedSteps :: "int list"
  pending :: "(int \<times> bool) list"
  ticks :: int
  resolved :: bool

definition nextTickTime :: "CircuitBreakerConfig \<Rightarrow> int \<Rightarrow> ResumeRun \<Rightarrow> int" where
  \<comment> \<open>the timer was started at time \<open>start\<close>\<close>
  "nextTickTime cfg start r = start + (ticks r + 1) * max 1 (gradualResumeIntervalMs cfg)"

fun earliest :: "(int \<times> bool) list \<Rightarrow> (int \<times> bool) option" where
  \<comment> \<open>the pending callback that settles first, the older one at equal times\<close>
  "earliest [] = None"
| "earliest (p # ps) =
     (case earliest ps of
        None \<Rightarrow> Some p
      | Some q \<Rightarrow> if fst q < fst p then Some q else Some p)"

definition tickEvent ::
  "CircuitBreakerConfig \<Rightarrow> (int \<Rightarrow> int \<Rightarrow> Settle) \<Rightarrow> int \<Rightarrow> ResumeRun \<Rightarrow> ResumeRun" where
  "tickEvent cfg onStepComplete start r =
     (let b = resumeTick (breaker r);
          now = nextTickTime cfg start r
      in r\<lparr>breaker := b,
           invoked := invoked r @ [(resumeStep b, gradualResumeSteps cfg)],
           pending :=
             (case onStepComplete (resumeStep b) (gradualResumeSteps cfg) of
                Resolves d \<Rightarrow> pending r @ [(now + int d, False)]
              | Rejects d \<Rightarrow> pending r @ [(now + int d, True)]
              | Never \<Rightarrow> pending r),
           ticks := ticks r + 1\<rparr>)"

definition settleEvent :: "CircuitBreakerConfig \<Rightarrow> int \<times> bool \<Rightarrow> ResumeRun \<Rightarrow> ResumeRun" where
  "settleEvent cfg p r =
     r\<lparr>breaker := resumeSettle cfg (fst p) (breaker r),
       failedSteps := (if snd p then failedSteps r @ [resumeStep (breaker r)]
                       else failedSteps r),
       pending := remove1 p (pending r),
       resolved := (resolved r \<or> resumeStep (breaker r) \<ge> gradualResumeSteps cfg)\<rparr>"

definition nextEvent ::
  "CircuitBreakerConfig \<Rightarrow> (int \<Rightarrow> int \<Rightarrow> Settle) \<Rightarrow> int \<Rightarrow> ResumeRun \<Rightarrow> ResumeRun option" where
  \<comment> \<open>the run after its next event; \<open>None\<close> when the timer is cleared and nothing is
      pending. A callback settles before a tick only if its time is strictly earlier.\<close>
  "nextEvent cfg onStepComplete start r =
     (case earliest (pending r) of
        None \<Rightarrow>
          if resumeInterval (breaker r) then Some (tickEvent cfg onStepComplete start r)
          else None
      | Some p \<Rightarrow>
          if resumeInterval (breaker r) \<and> nextTickTime cfg start r \<le> fst p
          then Some (tickEvent cfg onStepComplete start r)
          else Some (settleEvent cfg p r))"

text \<open>
  Events are run until nothing is left to happen. Nothing bounds their number (the timer
  keeps ticking while no callback settles), so the run takes fuel, one unit per event,
  and is \<open>None\<close> when the fuel does not suffice.
\<close>

fun runEvents ::
  "nat \<Rightarrow> CircuitBreakerConfig \<Rightarrow> (int \<Rightarrow> int \<Rightarrow> Settle) \<Rightarrow> int \<Rightarrow> ResumeRun \<Rightarrow> ResumeRun option" where
  "runEvents 0 cfg onStepComplete start r =
     (case nextEvent cfg onStepComplete start r of None \<Rightarrow> Some r | Some r' \<Rightarrow> None)"
| "runEvents (Suc fuel) cfg onStepComplete start r =
     (case nextEvent cfg onStepComplete start r of
        None \<Rightarrow> Some r
      | Some r' \<Rightarrow> runEvents fuel cfg onStepComplete start r')"

definition idleRun :: "CircuitBreaker \<Rightarrow> ResumeRun" where
  \<comment> \<open>the early return: no timer, no invocation, the promise resolved\<close>
  "idleRun cb =
     \<lparr>breaker = cb, invoked = [], failedSteps = [], pending = [], ticks = 0, resolved = True\<rparr>"

definition gradualResume ::
  "CircuitBreakerConfig \<Rightarrow> (int \<Rightarrow> int \<Rightarrow> Settle) \<Rightarrow> int \<Rightarrow> nat \<Rightarrow> CircuitBreaker \<Rightarrow>
   ResumeRun option" where
  "gradualResume cfg onStepComplete now fuel cb =
     (case resumeStart cfg now cb of
        None \<Rightarrow> Some (idleRun cb)
      | Some started \<Rightarrow>
          runEvents fuel cfg onStepComplete now
            \<lparr>breaker = started, invoked = [], failedSteps = [], pending = [], ticks = 0,
             resolved = False\<rparr>)"

definition settlesBefore :: "int \<Rightarrow> Settle \<Rightarrow> bool" where
  \<comment> \<open>the callback settles in less than \<open>i\<close> milliseconds\<close>
  "settlesBefore i s =
     (case s of Resolves d \<Rightarrow> int d < i | Rejects d \<Rightarrow> int d < i | Never \<Rightarrow> False)"

definition rejects :: "Settle \<Rightarrow> bool" where
  "rejects s = (case s of Rejects d \<Rightarrow> True | _ \<Rightarrow> False)"

text \<open>
  A history of the breaker: the public methods that write its state and the two halves
  of a timer tick of a resume, each with the time at which it runs. (\<open>checkConditions\<close>
  writes the state only through \<open>trip\<close>; \<open>GradualResume\<close> is the synchronous part of the
  call.)
\<close>

datatype BreakerCall =
    Trip TriggerReason
  | ManualTrip string
  | Reset
  | GradualResume
  | ResumeTick
  | ResumeSettle
  | RecordFailure
  | RecordSuccess
  | UpdatePriceHistory real

fun callBreaker :: "CircuitBreakerConfig \<Rightarrow> int \<Rightarrow> BreakerCall \<Rightarrow> CircuitBreaker \<Rightarrow> CircuitBreaker" where
  "callBreaker cfg now (Trip reason) cb = trip now reason cb"
| "callBreaker cfg now (ManualTrip msg) cb = manualTrip now msg cb"
| "callBreaker cfg now Reset cb = reset cfg now cb"
| "callBreaker cfg now GradualResume cb =
     (case resumeStart cfg now cb of None \<Rightarrow> cb | Some started \<Rightarrow> started)"
| "callBreaker cfg now ResumeTick cb = resumeTick cb"
| "callBreaker cfg now ResumeSettle cb = resumeSettle cfg now cb"
| "callBreaker cfg now RecordFailure cb = recordFailure cb"
| "callBreaker cfg now RecordSuccess cb = recordSuccess cb"
| "callBreaker cfg now (UpdatePriceHistory p) cb = updatePriceHistory p cb"

fun runBreaker ::
  "CircuitBreakerConfig \<Rightarrow> (int \<times> BreakerCall) list \<Rightarrow> CircuitBreaker \<Rightarrow> CircuitBreaker" where
  "runBreaker cfg [] cb = cb"
| "runBreaker cfg ((now, c) # rest) cb = runBreaker cfg rest (callBreaker cfg now c cb)"

definition defaultBreakerConfig :: CircuitBreakerConfig where
  \<comment> \<open>the configuration that \<^verbatim>\<open>src/index.ts\<close> builds from the schema defaults\<close>
  "defaultBreakerConfig =
     \<lparr>priceDeviationThresholdPercent = 50, volatilityThresholdPercent = 100,
      lossThresholdPercent = 10, consecutiveFailuresThreshold = 5,
      cooldownPeriodMs = 300000, gradualResumeSteps = 5, gradualResumeIntervalMs = 60000\<rparr>"

text \<open>
  A callback for a resume whose promise resolves after 100 ms at every step but the last
  one, where it takes 90 seconds: more than the default interval of 60 seconds.
\<close>

definition slowLastStep :: "int \<Rightarrow> int \<Rightarrow> Settle" where
  "slowLastStep step totalSteps =
     (if step = totalSteps then Resolves 90000 else Resolves 100)"

section \<open>Token amounts (BNMath in src/utils)\<close>

text \<open>
  A \<^verbatim>\<open>BN\<close> is an unbounded integer. \<open>toUIAmount\<close> works on the decimal string of the amount:
  it pads the string on the left with zeros to \<open>decimals + 1\<close> characters, takes all but
  the last \<open>decimals\<close> characters as the whole part (\<^verbatim>\<open>'0'\<close> if there are none) and the
  last \<open>decimals\<close> characters as the fraction, and \<open>toUIAmountNumber\<close> parses
  \<^verbatim>\<open>whole.fraction\<close> with \<^verbatim>\<open>parseFloat\<close>, which reads the longest prefix that is a number.

  \<^item> With at least one decimal and a non-negative amount the result is the amount divided
    by \<open>10 ^ decimals\<close>. The same holds for a negative amount with at least \<open>decimals\<close>
    digits (the sign stays in the whole part). A negative amount with fewer digits is
    padded in front of its sign; the parsed prefix is then \<^verbatim>\<open>0.0...0\<close>, that is 0.
  \<^item> With zero decimals \<^verbatim>\<open>slice(0, -0)\<close> is empty and \<^verbatim>\<open>slice(-0)\<close> is the whole string, so
    the string parsed is \<^verbatim>\<open>0.\<close> followed by the amount: an amount of 123 gives 0.123, and
    a negative amount gives 0.
\<close>

fun digitCount :: "nat \<Rightarrow> nat" where
  \<comment> \<open>the length of the decimal string of a natural number\<close>
  "digitCount n = (if n < 10 then 1 else Suc (digitCount (n div 10)))"

declare digitCount.simps [simp del]

definition toUIAmountNumber :: "int \<Rightarrow> nat \<Rightarrow> real" where
  "toUIAmountNumber tokenAmount decimals =
     (if decimals = 0 then
        (if 0 \<le> tokenAmount
         then real_of_int tokenAmount / 10 ^ digitCount (nat tokenAmount)
         else 0)
      else if 0 \<le> tokenAmount \<or> decimals \<le> digitCount (nat (- tokenAmount))
      then real_of_int tokenAmount / 10 ^ decimals
      else 0)"

definition bn_div :: "int \<Rightarrow> int \<Rightarrow> int option" where
  \<comment> \<open>\<^verbatim>\<open>a.div(b)\<close> of bn.js: truncates towards zero, and asserts (throws) on a zero divisor\<close>
  "bn_div a b = (if b = 0 then None else Some (sgn a * sgn b * (\<bar>a\<bar> div \<bar>b\<bar>)))"

definition bn_toNumber :: "int \<Rightarrow> real option" where
  \<comment> \<open>\<^verbatim>\<open>toNumber()\<close> of bn.js throws beyond 53 bits\<close>
  "bn_toNumber a = (if \<bar>a\<bar> < 2 ^ 53 then Some (real_of_int a) else None)"

section \<open>Market maker (src/core/MarketMaker.ts)\<close>

record Inventory =
  base :: int
  quote :: int
  avgBuyPrice :: real
  lastUpdate :: int

datatype OrderType = limit | market

record PlacedOrder =
  orderKey :: string
  signature :: string
  inputMint :: string
  outputMint :: string
  inAmount :: int
  outAmount :: int
  price :: real
  timestamp :: int
  type :: OrderType

datatype Side = buy | sell

text \<open>The configuration fields that the modelled methods read.\<close>

record MarketMakerConfig =
  baseDecimals :: nat
  quoteDecimals :: nat
  spreadPercent :: real
  minSpreadPercent :: real

text \<open>
  \<open>updateInventoryOnFill\<close> mutates the inventory object of the wallet. The model is the
  effect on that object. On a buy with a non-zero cost basis the source divides by the
  UI amount of the new base balance. When that amount is 0 (a base balance of 0, or a
  negative one with fewer digits than \<open>baseDecimals\<close>) the source stores NaN or an
  infinity in \<open>avgBuyPrice\<close>, which reals do not have: the model has HOL's \<open>x / 0 = 0\<close>
  there and does not describe the source. Every statement below about such a buy is
  about a positive new base balance.
\<close>

definition updateInventoryOnFill ::
  "MarketMakerConfig \<Rightarrow> int \<Rightarrow> Side \<Rightarrow> PlacedOrder \<Rightarrow> Inventory \<Rightarrow> Inventory" where
  "updateInventoryOnFill cfg now side order invt =
     (case side of
        buy \<Rightarrow>
          let invt1 = invt\<lparr>base := base invt + outAmount order,
                         quote := quote invt - inAmount order\<rparr>;
              invt2 =
                (if avgBuyPrice invt1 = 0 then invt1\<lparr>avgBuyPrice := PlacedOrder.price order\<rparr>
                 else
                   let newValue = toUIAmountNumber (base invt1) (baseDecimals cfg)
                                  * PlacedOrder.price order;
                       oldValue = (toUIAmountNumber (base invt1) (baseDecimals cfg)
                                   - toUIAmountNumber (outAmount order) (baseDecimals cfg))
                                  * avgBuyPrice invt1
                   in invt1\<lparr>avgBuyPrice :=
                            (oldValue + newValue)
                            / toUIAmountNumber (base invt1) (baseDecimals cfg)\<rparr>)
          in invt2\<lparr>lastUpdate := now\<rparr>
      | sell \<Rightarrow>
          invt\<lparr>base := base invt - inAmount order,
              quote := quote invt + outAmount order,
              lastUpdate := now\<rparr>)"

definition calculateInventoryRatio :: "MarketMakerConfig \<Rightarrow> Inventory \<Rightarrow> real \<Rightarrow> real" where
  "calculateInventoryRatio cfg invt mid =
     (let baseValue = toUIAmountNumber (base invt) (baseDecimals cfg) * mid;
          quoteValue = toUIAmountNumber (quote invt) (quoteDecimals cfg);
          totalValue = baseValue + quoteValue
      in if totalValue = 0 then 0.5 else baseValue / totalValue)"

definition logReturns :: "real list \<Rightarrow> real list" where
  \<comment> \<open>the loop that fills \<^verbatim>\<open>returns\<close>\<close>
  "logReturns w = map (\<lambda>i. ln (w ! i / w ! (i - 1))) [1 ..< length w]"

definition calculateVolatilityFactor :: "real list \<Rightarrow> real" where
  "calculateVolatilityFactor volatilityWindow =
     (if length volatilityWindow < 5 then 0
      else
        let returns = logReturns volatilityWindow in
        if length returns = 0 then 0
        else
          let mean = foldl (\<lambda>sum r. sum + r) 0 returns / real (length returns);
              variance = foldl (\<lambda>sum r. sum + (r - mean) ^ 2) 0 returns
                         / real (length returns)
          in sqrt variance * sqrt 252)"

text \<open>
  The spreads recommended by the strategy modules, as far as \<open>calculateTargetPrices\<close>
  reads them.
\<close>

record StrategyRecommendations =
  bidSpread :: real
  askSpread :: real
  shouldPause :: bool

text \<open>
  \<open>calculateTargetPrices\<close>. The argument \<open>strategies\<close> stands for the first half of the
  method: \<open>None\<close> when \<^verbatim>\<open>this.strategies\<close> is \<^verbatim>\<open>null\<close> (strategies disabled),
  \<open>Some None\<close> when \<^verbatim>\<open>getRecommendations\<close> threw and the method falls through to the
  default calculation, \<open>Some (Some r)\<close> when it returned \<open>r\<close>. \<open>target\<close> is
  \<^verbatim>\<open>this.inventoryTargets.get(walletKey)\<close>.
\<close>

definition defaultTargetPrices ::
  "MarketMakerConfig \<Rightarrow> real list \<Rightarrow> real option \<Rightarrow> real \<Rightarrow> real \<Rightarrow> real \<times> real" where
  \<comment> \<open>the default calculation (fallback or when strategies are disabled)\<close>
  "defaultTargetPrices cfg volatilityWindow target inventoryRatio mid =
     (let spread0 = MarketMakerConfig.spreadPercent cfg / 100;
          volatilityFactor = calculateVolatilityFactor volatilityWindow;
          spread1 = spread0 * (1 + volatilityFactor * 0.5);
          targetRatio = (case target of
                           None \<Rightarrow> 0.5
                         | Some t \<Rightarrow> if truthy t then t else 0.5);
          spread2 =
            (if \<bar>inventoryRatio - targetRatio\<bar> > 0.1 then
               (if inventoryRatio > targetRatio + 0.05 then spread1 * 1.3
                else if inventoryRatio < targetRatio - 0.05 then spread1 * 1.3
                else spread1)
             else spread1);
          spread3 = max spread2 (minSpreadPercent cfg / 100);
          bidPrice = mid * (1 - spread3 / 2);
          askPrice = mid * (1 + spread3 / 2)
      in (bidPrice, askPrice))"

definition calculateTargetPrices ::
  "MarketMakerConfig \<Rightarrow> StrategyRecommendations option option \<Rightarrow> real list \<Rightarrow> real option \<Rightarrow>
   AggregatedPrice \<Rightarrow> Inventory \<Rightarrow> real \<times> real" where
  "calculateTargetPrices cfg strategies volatilityWindow target p invt =
     (let inventoryRatio = calculateInventoryRatio cfg invt (midPrice p)
      in case strategies of
           Some (Some recommendations) \<Rightarrow>
             if shouldPause recommendations then (midPrice p, midPrice p)
             else (midPrice p * (1 - bidSpread recommendations),
                   midPrice p * (1 + askSpread recommendations))
         | _ \<Rightarrow> defaultTargetPrices cfg volatilityWindow target inventoryRatio (midPrice p))"

section \<open>Spread controller (src/strategies/SpreadController.ts)\<close>

record SpreadConfig =
  minSpread :: real
  maxSpread :: real
  baseSpread :: real
  volatilityMultiplier :: real
  inventoryMultiplier :: real
  minProfitBps :: real
  adaptiveEnabled :: bool

definition calculateVolatilityAdjustment :: "SpreadConfig \<Rightarrow> real \<Rightarrow> real" where
  "calculateVolatilityAdjustment cfg vol =
     (let adjustment = vol * volatilityMultiplier cfg * baseSpread cfg
      in min adjustment (maxSpread cfg - baseSpread cfg))"

definition calculateInventoryAdjustment :: "SpreadConfig \<Rightarrow> real \<Rightarrow> real" where
  "calculateInventoryAdjustment cfg inventoryRatio =
     (let targetRatio = 0.5;
          deviation = \<bar>inventoryRatio - targetRatio\<bar>
      in deviation * inventoryMultiplier cfg * baseSpread cfg)"

definition calculateAsymmetricSpread :: "real \<Rightarrow> real \<Rightarrow> real \<Rightarrow> real \<times> real" where
  \<comment> \<open>returns \<open>(bidSpread, askSpread)\<close>\<close>
  "calculateAsymmetricSpread totalSpread inventoryAdjustment inventoryRatio =
     (let targetRatio = 0.5
      in if inventoryRatio > targetRatio then
           (totalSpread / 2 - inventoryAdjustment / 2, totalSpread / 2 + inventoryAdjustment / 2)
         else if inventoryRatio < targetRatio then
           (totalSpread / 2 + inventoryAdjustment / 2, totalSpread / 2 - inventoryAdjustment / 2)
         else (totalSpread / 2, totalSpread / 2))"

definition ensureMinimumProfit :: "SpreadConfig \<Rightarrow> real" where
  "ensureMinimumProfit cfg =
     (let tradingFees = 0.003;
          minSpreadForProfit = tradingFees + minProfitBps cfg / 10000
      in if baseSpread cfg < minSpreadForProfit then minSpreadForProfit - baseSpread cfg
         else 0)"

definition calculateOptimalSpread :: "SpreadConfig \<Rightarrow> real \<Rightarrow> real \<Rightarrow> real \<times> real" where
  \<comment> \<open>\<open>(bidSpread, askSpread)\<close> of the result, from the volatility and the inventory
      ratio of the market conditions\<close>
  "calculateOptimalSpread cfg vol inventoryRatio =
     (let spreadBase = baseSpread cfg + calculateVolatilityAdjustment cfg vol;
          inventoryAdjustment = calculateInventoryAdjustment cfg inventoryRatio;
          minProfitAdjustment = ensureMinimumProfit cfg;
          totalSpread = max (minSpread cfg) (min (spreadBase + minProfitAdjustment) (maxSpread cfg))
      in calculateAsymmetricSpread totalSpread inventoryAdjustment inventoryRatio)"

section \<open>Strategy integration (src/strategies/StrategyIntegration.ts)\<close>

text \<open>
  \<open>getRecommendations\<close>, as far as the spreads go. The volatility filter is not
  modelled: \<open>pause\<close>, \<open>spreadMultiplier\<close> and \<open>vol\<close> are what its \<^verbatim>\<open>getAction()\<close> and
  \<^verbatim>\<open>getMetrics()\<close> return.
\<close>

definition getRecommendations ::
  "SpreadConfig \<Rightarrow> bool \<Rightarrow> real \<Rightarrow> real \<Rightarrow> real \<Rightarrow> StrategyRecommendations" where
  "getRecommendations cfg pause spreadMultiplier vol inventoryRatio =
     (if pause then \<lparr>bidSpread = 0, askSpread = 0, shouldPause = True\<rparr>
      else
        let (bidS, askS) = calculateOptimalSpread cfg vol inventoryRatio
        in \<lparr>bidSpread = bidS * spreadMultiplier,
            askSpread = askS * spreadMultiplier,
            shouldPause = False\<rparr>)"

definition createDefaultStrategyConfig :: SpreadConfig where
  \<comment> \<open>the \<^verbatim>\<open>spreadController\<close> part of the default strategy configuration\<close>
  "createDefaultStrategyConfig =
     \<lparr>minSpread = 0.005, maxSpread = 0.05, baseSpread = 0.01, volatilityMultiplier = 1.5,
      inventoryMultiplier = 1.0, minProfitBps = 5, adaptiveEnabled = True\<rparr>"

definition defaultMarketMakerConfig :: MarketMakerConfig where
  \<comment> \<open>the configuration that \<^verbatim>\<open>src/index.ts\<close> builds from the schema defaults
      (\<^verbatim>\<open>BASE_DECIMALS\<close> 9, \<^verbatim>\<open>QUOTE_DECIMALS\<close> 6, \<^verbatim>\<open>SPREAD_BPS\<close> 100, \<^verbatim>\<open>MIN_PROFIT_BPS\<close> 5)\<close>
  "defaultMarketMakerConfig =
     \<lparr>baseDecimals = 9, quoteDecimals = 6, spreadPercent = 100 / 100,
      minSpreadPercent = 5 / 100\<rparr>"

section \<open>Rug-pull detector (src/safety/RugPullDetector.ts)\<close>

record RugPullConfig =
  lpMonitoringEnabled :: bool
  supplyChangeThresholdPercent :: real
  holderConcentrationThresholdPercent :: real
  checkIntervalMs :: int
  autoExitOnDetection :: bool

record LPStatus =
  totalLiquidity :: int
  lpTokenSupply :: int
  lastChecked :: int
  changePercent :: real
  suspicious :: bool

record SupplyChange =
  currentSupply :: int
  previousSupply :: int
  changePercent :: real
  timestamp :: int
  suspicious :: bool

record HolderConcentration =
  topHolderPercent :: real
  top10HolderPercent :: real
  totalHolders :: nat
  suspicious :: bool

datatype RiskLevel = low | medium | high | critical

text \<open>
  A reason is a message with a number formatted by \<^verbatim>\<open>toFixed(2)\<close>; the model keeps
  which message it is and the number.
\<close>

datatype Reason = LPDecreased real | SupplyChanged real | TopHolderOwns real

record RugPullRisk =
  level :: RiskLevel
  score :: real
  reasons :: "Reason list"
  shouldExit :: bool

definition boolToNumber :: "bool \<Rightarrow> real" where
  \<comment> \<open>the numeric value of a boolean under unary minus\<close>
  "boolToNumber b = (if b then 1 else 0)"

definition lpCheckFailed :: "int \<Rightarrow> LPStatus" where
  \<comment> \<open>the status returned by the \<^verbatim>\<open>catch\<close> block of \<open>checkLPTokens\<close>\<close>
  "lpCheckFailed now =
     \<lparr>totalLiquidity = 0, lpTokenSupply = 0, lastChecked = now, changePercent = 0,
      suspicious = False\<rparr>"

definition lpChange :: "RugPullConfig \<Rightarrow> int \<Rightarrow> LPStatus list \<Rightarrow> (real \<times> bool) option" where
  \<comment> \<open>\<open>(changePercent, suspicious)\<close> as \<open>checkLPTokens\<close> computes them from the last
      entry of the history; \<open>None\<close> when \<^verbatim>\<open>div\<close> or \<^verbatim>\<open>toNumber\<close> throws. The condition is
      parsed as \<^verbatim>\<open>(changePercent < -lpMonitoringEnabled) ? 20 : 0\<close>.\<close>
  "lpChange cfg current history =
     (if history = [] then Some (0, False)
      else
        let previous = last history;
            diff = current - lpTokenSupply previous
        in case bn_div (diff * 100) (lpTokenSupply previous) of
             None \<Rightarrow> None
           | Some q \<Rightarrow>
               (case bn_toNumber q of
                  None \<Rightarrow> None
                | Some c \<Rightarrow>
                    Some (c, truthy (if c < - boolToNumber (lpMonitoringEnabled cfg)
                                     then 20 else 0))))"

definition checkLPTokens ::
  "RugPullConfig \<Rightarrow> int \<Rightarrow> int option \<Rightarrow> LPStatus list \<Rightarrow> LPStatus \<times> LPStatus list" where
  \<comment> \<open>\<open>supply\<close> is the answer of \<^verbatim>\<open>getTokenSupply\<close> (\<open>None\<close> when it throws), \<open>history\<close>
      the entry of \<open>lpHistory\<close> for the mint; the result is the status and the new history\<close>
  "checkLPTokens cfg now supply history =
     (case supply of
        None \<Rightarrow> (lpCheckFailed now, history)
      | Some current \<Rightarrow>
          (case lpChange cfg current history of
             None \<Rightarrow> (lpCheckFailed now, history)
           | Some (change, susp) \<Rightarrow>
               let status = \<lparr>totalLiquidity = current, lpTokenSupply = current,
                              lastChecked = now, changePercent = change, suspicious = susp\<rparr>;
                   h = history @ [status]
               in (status, if length h > 100 then tl h else h)))"

definition riskLevel :: "real \<Rightarrow> RiskLevel" where
  \<comment> \<open>the threshold chain of \<open>calculateRisk\<close>\<close>
  "riskLevel s =
     (if s \<ge> 80 then critical
      else if s \<ge> 60 then high
      else if s \<ge> 40 then medium
      else low)"

definition calculateRisk ::
  "RugPullConfig \<Rightarrow> LPStatus \<Rightarrow> SupplyChange \<Rightarrow> HolderConcentration \<Rightarrow> RugPullRisk" where
  "calculateRisk cfg lpStatus supplyChange holderConcentration =
     (let (score1, reasons1) =
            (if LPStatus.suspicious lpStatus
             then (0 + min (\<bar>LPStatus.changePercent lpStatus\<bar> * 2) 40,
                   [LPDecreased \<bar>LPStatus.changePercent lpStatus\<bar>])
             else (0, []));
          (score2, reasons2) =
            (if SupplyChange.suspicious supplyChange
             then (score1 + min (\<bar>SupplyChange.changePercent supplyChange\<bar> * 1.5) 30,
                   reasons1 @ [SupplyChanged \<bar>SupplyChange.changePercent supplyChange\<bar>])
             else (score1, reasons1));
          (score3, reasons3) =
            (if HolderConcentration.suspicious holderConcentration
             then (score2 + min (topHolderPercent holderConcentration * 0.5) 30,
                   reasons2 @ [TopHolderOwns (topHolderPercent holderConcentration)])
             else (score2, reasons2));
          lvl = riskLevel score3
      in \<lparr>level = lvl,
          score = score3,
          reasons = reasons3,
          shouldExit = (autoExitOnDetection cfg \<and> (lvl = critical \<or> lvl = high))\<rparr>)"

definition defaultRugPullConfig :: RugPullConfig where
  \<comment> \<open>the configuration that \<^verbatim>\<open>src/index.ts\<close> builds from the schema defaults\<close>
  "defaultRugPullConfig =
     \<lparr>lpMonitoringEnabled = True, supplyChangeThresholdPercent = 20,
      holderConcentrationThresholdPercent = 50, checkIntervalMs = 30000,
      autoExitOnDetection = True\<rparr>"

section \<open>Properties of the price aggregator\<close>

lemma circuitBreakerCheck_Some:
  "circuitBreakerCheck cfg st final = Some d \<longleftrightarrow>
   (\<exists>prev. lastPrice st = Some prev \<and> enableCircuitBreaker cfg \<and> prev \<noteq> 0 \<and>
           priceChange final prev > circuitBreakerThresholdPercent cfg \<and>
           d = dampenedPrice final prev)"
  by (auto simp: circuitBreakerCheck_def truthy_def split: option.splits)

lemmas getPrice_eval = getPrice_def cacheHit_def cacheKey_def validPrices_def
  fetchJupiterPrice_def fetchPythPrice_def fetchBirdeyePrice_def fetchDexscreenerPrice_def
  fetchPrice_def truthy_def filteredPrices_def finalMedian_def medianPrice_def
  calculateMedian_def circuitBreakerCheck_def priceChange_def dampenedPrice_def
  createAggregatedPrice_def createFallbackPrice_def Let_def
  defaultAggregatorConfig_def newPriceAggregator_def

subsection \<open>Accepted and dampened prices\<close>

text \<open>
  Claim C1 at a concrete input. A fresh aggregator with the default configuration
  (\<open>minSources\<close> 2, \<open>maxPriceDeviationPercent\<close> 10) is asked for a price while two feeds
  return valid samples, 1 and 100, and the other two return nothing. There are two valid
  samples, as many as \<open>minSources\<close> asks for. Their median is 50.5, from which each of
  them deviates by 98 percent, so the deviation filter keeps no sample, and
  \<open>calculateMedian\<close> of no values is 0. No last price is stored, so the circuit breaker
  check is skipped. The call returns the mid price 0 with \<open>bestBid = midPrice = bestAsk\<close>,
  where the claim asks for a strictly positive price and \<open>bestBid < midPrice < bestAsk\<close>;
  the confidence is the average over no sources (0 / 0), and the price 0 is stored as
  last price and cached.
\<close>

theorem getPrice_empty_filter_zero_price:
  "minSources defaultAggregatorConfig
     \<le> length (validPrices
                 \<lparr>jupiterFeed = Some 1, pythFeed = Some 100, birdeyeFeed = None,
                  dexscreenerFeed = None\<rparr> 6000) \<and>
   filteredPrices defaultAggregatorConfig
     (validPrices
        \<lparr>jupiterFeed = Some 1, pythFeed = Some 100, birdeyeFeed = None,
         dexscreenerFeed = None\<rparr> 6000) = [] \<and>
   fst (getPrice defaultAggregatorConfig
          \<lparr>jupiterFeed = Some 1, pythFeed = Some 100, birdeyeFeed = None,
           dexscreenerFeed = None\<rparr>
          6000 ''BASE'' ''QUOTE'' False newPriceAggregator)
     = Inr \<lparr>midPrice = 0, bestBid = 0, bestAsk = 0, sources = [],
            AggregatedPrice.confidence = None, AggregatedPrice.timestamp = 6000\<rparr> \<and>
   lastPrice
     (snd (getPrice defaultAggregatorConfig
             \<lparr>jupiterFeed = Some 1, pythFeed = Some 100, birdeyeFeed = None,
              dexscreenerFeed = None\<rparr>
             6000 ''BASE'' ''QUOTE'' False newPriceAggregator)) = Some 0"
  by (simp add: getPrice_eval)

text \<open>
  The price 0 is then served from the cache: a second call one second later, whatever
  the feeds return, gives the same result.
\<close>

lemma getPrice_zero_price_cached:
  "map_sum id midPrice
     (fst (getPrice defaultAggregatorConfig feeds 7000 ''BASE'' ''QUOTE'' False
             (snd (getPrice defaultAggregatorConfig
                     \<lparr>jupiterFeed = Some 1, pythFeed = Some 100, birdeyeFeed = None,
                      dexscreenerFeed = None\<rparr>
                     6000 ''BASE'' ''QUOTE'' False newPriceAggregator))))
     = Inr 0"
  by (simp add: getPrice_eval)

text \<open>
  With a configured spread of 0 (\<^verbatim>\<open>SPREAD_BPS\<close> 0 is accepted by the configuration schema)
  bid, mid and ask coincide at any price.
\<close>

lemma getPrice_zero_spread:
  "map_sum id (\<lambda>a. (bestBid a, midPrice a, bestAsk a))
     (fst (getPrice (defaultAggregatorConfig\<lparr>PriceAggregatorConfig.spreadPercent := 0\<rparr>)
             \<lparr>jupiterFeed = Some 2, pythFeed = Some 2, birdeyeFeed = None, dexscreenerFeed = None\<rparr>
             6000 ''BASE'' ''QUOTE'' False newPriceAggregator))
     = Inr (2, 2, 2)"
  by (simp add: getPrice_eval)

text \<open>
  Claim C2, as the code has it. When the circuit breaker check of \<open>getPrice\<close> triggers
  (the check is enabled, a non-zero last price \<open>prev\<close> is stored, and the two-pass median
  deviates from it by more than \<open>circuitBreakerThresholdPercent\<close>), the returned mid price
  is \<open>prev * 1.2\<close> if the median is above \<open>prev\<close> and \<open>prev * 0.8\<close> otherwise: the last
  price moved by 20 percent of itself in the direction of the median. For a positive
  \<open>prev\<close> the returned price lies on the same side of \<open>prev\<close> as the median.
\<close>

theorem getPrice_dampened_price:
  assumes "cacheHit cfg now (cacheKey baseMint quoteMint) forceRefresh st = None"
    and "minSources cfg \<le> length (validPrices feeds now)"
    and "enableCircuitBreaker cfg"
    and "lastPrice st = Some prev" and "prev \<noteq> 0"
    and "priceChange (finalMedian cfg (validPrices feeds now)) prev
           > circuitBreakerThresholdPercent cfg"
  shows "\<exists>agg. fst (getPrice cfg feeds now baseMint quoteMint forceRefresh st) = Inr agg \<and>
           midPrice agg = (if finalMedian cfg (validPrices feeds now) > prev
                           then prev * 1.2 else prev * 0.8) \<and>
           (0 < prev \<longrightarrow>
              (finalMedian cfg (validPrices feeds now) > prev \<longrightarrow> midPrice agg > prev) \<and>
              (finalMedian cfg (validPrices feeds now) < prev \<longrightarrow> midPrice agg < prev))"
proof -
  have "circuitBreakerCheck cfg st (finalMedian cfg (validPrices feeds now))
        = Some (dampenedPrice (finalMedian cfg (validPrices feeds now)) prev)"
    using assms(3-6) by (simp add: circuitBreakerCheck_Some)
  then have "fst (getPrice cfg feeds now baseMint quoteMint forceRefresh st)
        = Inr (createAggregatedPrice cfg now
                 (dampenedPrice (finalMedian cfg (validPrices feeds now)) prev)
                 (filteredPrices cfg (validPrices feeds now)))"
    using assms(1,2) by (simp add: getPrice_def Let_def)
  then show ?thesis
    by (simp add: createAggregatedPrice_def Let_def dampenedPrice_def)
qed

text \<open>Last price 100 and both feeds at 160: a change of 60 percent, and a mid price of 120.\<close>

theorem getPrice_dampened_price_witness:
  "priceChange
     (finalMedian defaultAggregatorConfig
        (validPrices \<lparr>jupiterFeed = Some 160, pythFeed = Some 160,
                       birdeyeFeed = None, dexscreenerFeed = None\<rparr> 6000)) 100
     > circuitBreakerThresholdPercent defaultAggregatorConfig \<and>
   (\<exists>agg. fst (getPrice defaultAggregatorConfig
                  \<lparr>jupiterFeed = Some 160, pythFeed = Some 160,
                   birdeyeFeed = None, dexscreenerFeed = None\<rparr>
                  6000 ''BASE'' ''QUOTE'' False \<lparr>cache = Map.empty, lastPrice = Some 100\<rparr>)
            = Inr agg \<and> midPrice agg = 120)"
proof -
  let ?feeds = "\<lparr>jupiterFeed = Some 160, pythFeed = Some 160,
                 birdeyeFeed = None, dexscreenerFeed = (None :: real option)\<rparr>"
  let ?st = "\<lparr>cache = Map.empty, lastPrice = Some (100::real)\<rparr>"
  have h1: "cacheHit defaultAggregatorConfig 6000 (cacheKey ''BASE'' ''QUOTE'') False ?st = None"
    by (simp add: getPrice_eval)
  have h2: "minSources defaultAggregatorConfig \<le> length (validPrices ?feeds 6000)"
    by (simp add: getPrice_eval)
  have h3: "enableCircuitBreaker defaultAggregatorConfig"
    by (simp add: getPrice_eval)
  have h4: "lastPrice ?st = Some 100" by simp
  have h5: "(100::real) \<noteq> 0" by simp
  have fm: "finalMedian defaultAggregatorConfig (validPrices ?feeds 6000) = 160"
    by (simp add: getPrice_eval)
  have h6: "priceChange (finalMedian defaultAggregatorConfig (validPrices ?feeds 6000)) 100
            > circuitBreakerThresholdPercent defaultAggregatorConfig"
    by (simp add: fm) (simp add: getPrice_eval)
  from getPrice_dampened_price [OF h1 h2 h3 h4 h5 h6] fm h6
  show ?thesis by auto
qed

text \<open>
  Claim C2 as stated asks for \<open>previous + 0.2 * (median - previous)\<close>. A first call at
  time 0 with two feeds at 100 accepts 100 as the last price; in a second call at time
  6000 both feeds report 160. The claimed price is 112, the code returns 120.
\<close>

theorem getPrice_dampened_price_counterexample:
  "lastPrice
     (snd (getPrice defaultAggregatorConfig
             \<lparr>jupiterFeed = Some 100, pythFeed = Some 100, birdeyeFeed = None, dexscreenerFeed = None\<rparr>
             0 ''BASE'' ''QUOTE'' False newPriceAggregator)) = Some 100 \<and>
   finalMedian defaultAggregatorConfig
     (validPrices \<lparr>jupiterFeed = Some 160, pythFeed = Some 160,
                    birdeyeFeed = None, dexscreenerFeed = None\<rparr> 6000) = 160 \<and>
   priceChange 160 100 > circuitBreakerThresholdPercent defaultAggregatorConfig \<and>
   map_sum id midPrice
     (fst (getPrice defaultAggregatorConfig
             \<lparr>jupiterFeed = Some 160, pythFeed = Some 160, birdeyeFeed = None, dexscreenerFeed = None\<rparr>
             6000 ''BASE'' ''QUOTE'' False
             (snd (getPrice defaultAggregatorConfig
                     \<lparr>jupiterFeed = Some 100, pythFeed = Some 100,
                      birdeyeFeed = None, dexscreenerFeed = None\<rparr>
                     0 ''BASE'' ''QUOTE'' False newPriceAggregator))))
     = Inr 120 \<and>
   (120::real) \<noteq> 100 + 0.2 * (160 - 100)"
  by (simp add: getPrice_eval)

subsection \<open>Fallback and frame\<close>

text \<open>
  Claim C6. Take a call of \<open>getPrice\<close> that goes past the cache and in which fewer than
  \<open>minSources\<close> feeds return a valid sample. If a last price \<open>prev\<close> is stored (and is not
  zero, the test being \<^verbatim>\<open>if (this.lastPrice)\<close>), the call returns the fallback price built
  around \<open>prev\<close>: mid price \<open>prev\<close>, bid and ask at half the configured spread below and
  above it, exactly one source, tagged \<open>fallback\<close> with confidence 0.5, and an overall
  confidence of 0.5; the state is unchanged. If no last price is stored (or the stored
  number is 0, which the test treats alike), the call fails with the
  insufficient-sources error.
\<close>

theorem getPrice_insufficient_sources:
  assumes "cacheHit cfg now (cacheKey baseMint quoteMint) forceRefresh st = None"
    and "length (validPrices feeds now) < minSources cfg"
  shows "(\<forall>prev. lastPrice st = Some prev \<and> prev \<noteq> 0 \<longrightarrow>
            getPrice cfg feeds now baseMint quoteMint forceRefresh st
              = (Inr (createFallbackPrice cfg now prev), st) \<and>
            midPrice (createFallbackPrice cfg now prev) = prev \<and>
            bestBid (createFallbackPrice cfg now prev)
              = prev * (1 - PriceAggregatorConfig.spreadPercent cfg / 100 / 2) \<and>
            bestAsk (createFallbackPrice cfg now prev)
              = prev * (1 + PriceAggregatorConfig.spreadPercent cfg / 100 / 2) \<and>
            sources (createFallbackPrice cfg now prev)
              = [\<lparr>PriceData.price = prev, source = ''fallback'', PriceData.confidence = 0.5,
                  PriceData.timestamp = now\<rparr>] \<and>
            AggregatedPrice.confidence (createFallbackPrice cfg now prev) = Some 0.5)
       \<and> (lastPrice st = None \<or> lastPrice st = Some 0 \<longrightarrow>
            getPrice cfg feeds now baseMint quoteMint forceRefresh st
              = (Inl (InsufficientSources (length (validPrices feeds now)) (minSources cfg)), st))"
  using assms by (auto simp: getPrice_def Let_def truthy_def createFallbackPrice_def)

text \<open>
  One valid sample out of four (a missing, a zero and a negative answer are dropped):
  with last price 1 the fallback quotes 0.995 / 1.005, without one the call fails.
\<close>

theorem getPrice_insufficient_sources_witness:
  "length (validPrices \<lparr>jupiterFeed = Some 1.02, pythFeed = None,
                         birdeyeFeed = Some 0, dexscreenerFeed = Some (- 3)\<rparr> 7000)
     < minSources defaultAggregatorConfig \<and>
   getPrice defaultAggregatorConfig
     \<lparr>jupiterFeed = Some 1.02, pythFeed = None, birdeyeFeed = Some 0, dexscreenerFeed = Some (- 3)\<rparr>
     7000 ''BASE'' ''QUOTE'' True \<lparr>cache = Map.empty, lastPrice = Some 1\<rparr>
     = (Inr (createFallbackPrice defaultAggregatorConfig 7000 1),
        \<lparr>cache = Map.empty, lastPrice = Some 1\<rparr>) \<and>
   bestBid (createFallbackPrice defaultAggregatorConfig 7000 1) = 0.995 \<and>
   bestAsk (createFallbackPrice defaultAggregatorConfig 7000 1) = 1.005 \<and>
   getPrice defaultAggregatorConfig
     \<lparr>jupiterFeed = Some 1.02, pythFeed = None, birdeyeFeed = Some 0, dexscreenerFeed = Some (- 3)\<rparr>
     7000 ''BASE'' ''QUOTE'' True newPriceAggregator
     = (Inl (InsufficientSources 1 2), newPriceAggregator)"
proof -
  let ?feeds = "\<lparr>jupiterFeed = Some 1.02, pythFeed = None,
                 birdeyeFeed = Some 0, dexscreenerFeed = Some (- 3 :: real)\<rparr>"
  let ?st = "\<lparr>cache = Map.empty, lastPrice = Some (1::real)\<rparr>"
  have h1: "cacheHit defaultAggregatorConfig 7000 (cacheKey ''BASE'' ''QUOTE'') True ?st = None"
    by (simp add: cacheHit_def)
  have h1': "cacheHit defaultAggregatorConfig 7000 (cacheKey ''BASE'' ''QUOTE'') True
               newPriceAggregator = None"
    by (simp add: cacheHit_def)
  have n: "length (validPrices ?feeds 7000) = 1"
    by (simp add: getPrice_eval)
  have h2: "length (validPrices ?feeds 7000) < minSources defaultAggregatorConfig"
    using n by (simp add: defaultAggregatorConfig_def)
  have s: "PriceAggregatorConfig.spreadPercent defaultAggregatorConfig = 1"
    by (simp add: defaultAggregatorConfig_def)
  have m: "minSources defaultAggregatorConfig = 2"
    by (simp add: defaultAggregatorConfig_def)
  have e: "lastPrice newPriceAggregator = None"
    by (simp add: newPriceAggregator_def)
  from getPrice_insufficient_sources [OF h1 h2] getPrice_insufficient_sources [OF h1' h2]
    h2 n s m e
  show ?thesis by simp
qed

text \<open>
  Claim C10. When the circuit breaker check of \<open>getPrice\<close> triggers, the call returns the
  dampened aggregated price and leaves the state as it was: the stored last price and
  the cache are unchanged, so a later call that bypasses the cache behaves exactly as it
  would have from the state before.
\<close>

theorem getPrice_dampened_state_unchanged:
  assumes "cacheHit cfg now (cacheKey baseMint quoteMint) forceRefresh st = None"
    and "minSources cfg \<le> length (validPrices feeds now)"
    and "circuitBreakerCheck cfg st (finalMedian cfg (validPrices feeds now)) = Some d"
  shows "getPrice cfg feeds now baseMint quoteMint forceRefresh st =
           (Inr (createAggregatedPrice cfg now d (filteredPrices cfg (validPrices feeds now))), st)
       \<and> lastPrice (snd (getPrice cfg feeds now baseMint quoteMint forceRefresh st)) = lastPrice st
       \<and> cache (snd (getPrice cfg feeds now baseMint quoteMint forceRefresh st)) = cache st
       \<and> getPrice cfg feeds' now' baseMint quoteMint True
            (snd (getPrice cfg feeds now baseMint quoteMint forceRefresh st))
          = getPrice cfg feeds' now' baseMint quoteMint True st"
  using assms by (simp add: getPrice_def Let_def)

text \<open>Last price 100 and two feeds at 30: the dampened price is 80, the state is kept.\<close>

theorem getPrice_dampened_state_unchanged_witness:
  "circuitBreakerCheck defaultAggregatorConfig \<lparr>cache = Map.empty, lastPrice = Some 100\<rparr>
     (finalMedian defaultAggregatorConfig
        (validPrices \<lparr>jupiterFeed = Some 30, pythFeed = None,
                       birdeyeFeed = Some 30, dexscreenerFeed = None\<rparr> 7000)) = Some 80 \<and>
   snd (getPrice defaultAggregatorConfig
          \<lparr>jupiterFeed = Some 30, pythFeed = None, birdeyeFeed = Some 30, dexscreenerFeed = None\<rparr>
          7000 ''BASE'' ''QUOTE'' True \<lparr>cache = Map.empty, lastPrice = Some 100\<rparr>)
     = \<lparr>cache = Map.empty, lastPrice = Some 100\<rparr>"
proof -
  let ?feeds = "\<lparr>jupiterFeed = Some 30, pythFeed = None,
                 birdeyeFeed = Some 30, dexscreenerFeed = (None :: real option)\<rparr>"
  let ?st = "\<lparr>cache = Map.empty, lastPrice = Some (100::real)\<rparr>"
  have h1: "cacheHit defaultAggregatorConfig 7000 (cacheKey ''BASE'' ''QUOTE'') True ?st = None"
    by (simp add: cacheHit_def)
  have h2: "minSources defaultAggregatorConfig \<le> length (validPrices ?feeds 7000)"
    by (simp add: getPrice_eval)
  have h3: "circuitBreakerCheck defaultAggregatorConfig ?st
              (finalMedian defaultAggregatorConfig (validPrices ?feeds 7000)) = Some 80"
    by (simp add: getPrice_eval)
  from getPrice_dampened_state_unchanged [OF h1 h2 h3] h3
  show ?thesis by simp
qed

section \<open>Properties of the circuit breaker\<close>

text \<open>
  Claim C7. Tripping a breaker that is already open changes nothing: the state is the
  same, so the breaker stays open and \<open>triggeredAt\<close> and \<open>triggerReason\<close> keep their
  values, whatever the new reason and the time are.
\<close>

theorem trip_open_noop:
  "isOpen cb \<Longrightarrow>
   trip now reason cb = cb \<and> isOpen (trip now reason cb) \<and>
   triggeredAt (trip now reason cb) = triggeredAt cb \<and>
   triggerReason (trip now reason cb) = triggerReason cb"
  by (simp add: trip_def)

text \<open>A breaker tripped by hand at time 1000 and tripped again at 2000 for a loss.\<close>

theorem trip_open_noop_witness:
  "isOpen (manualTrip 1000 ''halt'' newCircuitBreaker) \<and>
   trip 2000 \<lparr>TriggerReason.type = loss, value = 12, threshold = 10, message = ''Loss exceeded''\<rparr>
     (manualTrip 1000 ''halt'' newCircuitBreaker) = manualTrip 1000 ''halt'' newCircuitBreaker \<and>
   triggeredAt
     (trip 2000 \<lparr>TriggerReason.type = loss, value = 12, threshold = 10, message = ''Loss exceeded''\<rparr>
        (manualTrip 1000 ''halt'' newCircuitBreaker)) = Some 1000"
proof -
  have o: "isOpen (manualTrip 1000 ''halt'' newCircuitBreaker)"
    by (simp add: manualTrip_def trip_def newCircuitBreaker_def)
  have t: "triggeredAt (manualTrip 1000 ''halt'' newCircuitBreaker) = Some 1000"
    by (simp add: manualTrip_def trip_def newCircuitBreaker_def)
  from trip_open_noop [OF o, of 2000
      "\<lparr>TriggerReason.type = loss, value = 12, threshold = 10, message = ''Loss exceeded''\<rparr>"] o t
  show ?thesis by simp
qed

lemma callBreaker_stays_open:
  assumes "isOpen cb" and "triggeredAt cb = Some t" and "t \<noteq> 0"
    and "now - t < cooldownPeriodMs cfg"
  shows "isOpen (callBreaker cfg now c cb) \<and>
         triggeredAt (callBreaker cfg now c cb) = Some t \<and>
         triggerReason (callBreaker cfg now c cb) = triggerReason cb"
  using assms
  by (cases c)
     (simp_all add: trip_def manualTrip_def reset_def resumeStart_def resumeTick_def
        resumeSettle_def cooldownPending_def recordFailure_def recordSuccess_def
        updatePriceHistory_def Let_def)

lemma runBreaker_stays_open:
  assumes "isOpen cb" and "triggeredAt cb = Some t" and "t \<noteq> 0"
    and "\<forall>(now, c) \<in> set calls. now - t < cooldownPeriodMs cfg"
  shows "isOpen (runBreaker cfg calls cb) \<and>
         triggeredAt (runBreaker cfg calls cb) = Some t \<and>
         triggerReason (runBreaker cfg calls cb) = triggerReason cb"
  using assms
proof (induction calls arbitrary: cb)
  case Nil
  then show ?case by simp
next
  case (Cons a calls)
  obtain now c where a: "a = (now, c)" by (cases a)
  have early: "now - t < cooldownPeriodMs cfg"
    using Cons.prems(4) a by simp
  note step = callBreaker_stays_open [OF Cons.prems(1-3) early, of c]
  have "isOpen (runBreaker cfg calls (callBreaker cfg now c cb)) \<and>
        triggeredAt (runBreaker cfg calls (callBreaker cfg now c cb)) = Some t \<and>
        triggerReason (runBreaker cfg calls (callBreaker cfg now c cb))
          = triggerReason (callBreaker cfg now c cb)"
    using step Cons.prems(3,4) by (intro Cons.IH) simp_all
  then show ?case using step a by simp
qed

text \<open>
  Claim C8. For an open breaker tripped at time \<open>t\<close> (a timestamp, so not 0), a \<open>reset\<close> at
  a time \<open>now\<close> with \<open>now - t < cooldownPeriodMs\<close> returns the state unchanged: the
  breaker stays open with the same trip time, trip reason, failure count and resume
  step. A \<open>gradualResume\<close> started at such a time returns at once, whatever the callback
  and the fuel are: the breaker is unchanged, no timer is started and the callback is
  never invoked, so no resume can close the breaker unless the cooldown had elapsed when
  it started. More generally, after any sequence of calls of the state-writing methods
  and of timer ticks and callback settlements of a resume, all made before the cooldown
  has elapsed, the breaker is still open with the same trip time and reason.
\<close>

theorem reset_before_cooldown_noop:
  assumes "isOpen cb" and "triggeredAt cb = Some t" and "t \<noteq> 0"
    and "now - t < cooldownPeriodMs cfg"
    and "\<forall>(time, c) \<in> set calls. time - t < cooldownPeriodMs cfg"
  shows "reset cfg now cb = cb \<and>
         gradualResume cfg onStepComplete now fuel cb
           = Some \<lparr>breaker = cb, invoked = [], failedSteps = [], pending = [], ticks = 0,
                   resolved = True\<rparr> \<and>
         isOpen (runBreaker cfg calls cb) \<and>
         triggeredAt (runBreaker cfg calls cb) = Some t \<and>
         triggerReason (runBreaker cfg calls cb) = triggerReason cb"
  using assms(1-4) runBreaker_stays_open [OF assms(1-3) assms(5)]
  by (simp add: reset_def gradualResume_def resumeStart_def idleRun_def cooldownPending_def)

text \<open>
  With the default cooldown of 300000 ms and a trip at 1000: a reset at 300999 changes
  nothing, nor do a reset, a recorded success, a resume, a timer tick, a settled callback
  and another trip before that; a reset at 301000 closes the breaker.
\<close>

theorem reset_before_cooldown_noop_witness:
  "isOpen (recordFailure (manualTrip 1000 ''halt'' newCircuitBreaker)) \<and>
   triggeredAt (recordFailure (manualTrip 1000 ''halt'' newCircuitBreaker)) = Some 1000 \<and>
   (300999 :: int) - 1000 < cooldownPeriodMs defaultBreakerConfig \<and>
   reset defaultBreakerConfig 300999 (recordFailure (manualTrip 1000 ''halt'' newCircuitBreaker))
     = recordFailure (manualTrip 1000 ''halt'' newCircuitBreaker) \<and>
   consecutiveFailures
     (reset defaultBreakerConfig 300999
        (recordFailure (manualTrip 1000 ''halt'' newCircuitBreaker))) = 1 \<and>
   map_option invoked
     (gradualResume defaultBreakerConfig slowLastStep 300999 0
        (recordFailure (manualTrip 1000 ''halt'' newCircuitBreaker))) = Some [] \<and>
   isOpen
     (runBreaker defaultBreakerConfig
        [(2000, Reset), (3000, RecordSuccess), (4000, GradualResume), (4500, ResumeTick),
         (4600, ResumeSettle), (5000, ManualTrip ''again'')]
        (recordFailure (manualTrip 1000 ''halt'' newCircuitBreaker))) \<and>
   isOpen (reset defaultBreakerConfig 301000
             (recordFailure (manualTrip 1000 ''halt'' newCircuitBreaker))) = False"
proof -
  let ?cb = "recordFailure (manualTrip 1000 ''halt'' newCircuitBreaker)"
  let ?calls = "[(2000, Reset), (3000, RecordSuccess), (4000, GradualResume),
                 (4500, ResumeTick), (4600, ResumeSettle), (5000, ManualTrip ''again'')]"
  have o: "isOpen ?cb"
    by (simp add: recordFailure_def manualTrip_def trip_def newCircuitBreaker_def)
  have t: "triggeredAt ?cb = Some 1000"
    by (simp add: recordFailure_def manualTrip_def trip_def newCircuitBreaker_def)
  have z: "(1000::int) \<noteq> 0" by simp
  have c: "(300999 :: int) - 1000 < cooldownPeriodMs defaultBreakerConfig"
    by (simp add: defaultBreakerConfig_def)
  have cs: "\<forall>(time, c) \<in> set ?calls. time - 1000 < cooldownPeriodMs defaultBreakerConfig"
    by (simp add: defaultBreakerConfig_def)
  have f: "consecutiveFailures ?cb = 1"
    by (simp add: recordFailure_def manualTrip_def trip_def newCircuitBreaker_def)
  have l: "isOpen (reset defaultBreakerConfig 301000 ?cb) = False"
    by (simp add: reset_def cooldownPending_def defaultBreakerConfig_def recordFailure_def
          manualTrip_def trip_def newCircuitBreaker_def)
  from reset_before_cooldown_noop
         [where onStepComplete = slowLastStep and fuel = 0, OF o t z c cs] o t c f l
  show ?thesis by simp
qed

subsection \<open>Gradual resume\<close>

text \<open>Running the events of a resume: one unit of fuel per event.\<close>

lemma runEvents_numeral:
  "runEvents (numeral k) cfg f start r =
     (case nextEvent cfg f start r of
        None \<Rightarrow> Some r
      | Some r' \<Rightarrow> runEvents (pred_numeral k) cfg f start r')"
  by (simp add: numeral_eq_Suc)

lemmas resume_eval = gradualResume_def resumeStart_def resumeTick_def resumeSettle_def
  nextTickTime_def tickEvent_def settleEvent_def nextEvent_def idleRun_def reset_def
  cooldownPending_def manualTrip_def trip_def newCircuitBreaker_def defaultBreakerConfig_def
  slowLastStep_def Let_def runEvents_numeral

lemma runEvents_quiescent:
  "nextEvent cfg f start r = None \<Longrightarrow> runEvents fuel cfg f start r = Some r"
  by (cases fuel) simp_all

lemma runEvents_two_steps:
  assumes "nextEvent cfg f start r = Some r1" and "nextEvent cfg f start r1 = Some r2"
  shows "runEvents (Suc (Suc fuel)) cfg f start r = runEvents fuel cfg f start r2"
  using assms by simp

text \<open>One tick whose callback settles before the next tick.\<close>

lemma prompt_tick:
  assumes "settlesBefore (max 1 (gradualResumeIntervalMs cfg))
             (f (resumeStep (breaker r) + 1) (gradualResumeSteps cfg))"
    and "pending r = []" and "resumeInterval (breaker r)"
  shows "\<exists>t r2. nextTickTime cfg start r \<le> t
           \<and> nextEvent cfg f start r = Some (tickEvent cfg f start r)
           \<and> nextEvent cfg f start (tickEvent cfg f start r) = Some r2
           \<and> breaker r2 = resumeSettle cfg t (resumeTick (breaker r))
           \<and> invoked r2 = invoked r @ [(resumeStep (breaker r) + 1, gradualResumeSteps cfg)]
           \<and> failedSteps r2 =
                 (if rejects (f (resumeStep (breaker r) + 1) (gradualResumeSteps cfg))
                  then failedSteps r @ [resumeStep (breaker r) + 1] else failedSteps r)
           \<and> pending r2 = []
           \<and> ticks r2 = ticks r + 1
           \<and> resolved r2 = (resolved r \<or> resumeStep (breaker r) + 1 \<ge> gradualResumeSteps cfg)"
proof -
  let ?I = "max 1 (gradualResumeIntervalMs cfg)"
  let ?s = "f (resumeStep (breaker r) + 1) (gradualResumeSteps cfg)"
  let ?d = "case ?s of Resolves d \<Rightarrow> int d | Rejects d \<Rightarrow> int d | Never \<Rightarrow> 0"
  let ?p = "(nextTickTime cfg start r + ?d, rejects ?s)"
  let ?r2 = "settleEvent cfg ?p (tickEvent cfg f start r)"
  have first: "nextEvent cfg f start r = Some (tickEvent cfg f start r)"
    using assms(2,3) by (simp add: nextEvent_def)
  have d: "?d < ?I"
    using assms(1) by (cases ?s) (simp_all add: settlesBefore_def)
  have d0: "0 \<le> ?d"
    by (cases ?s) simp_all
  have tick: "tickEvent cfg f start r
              = r\<lparr>breaker := resumeTick (breaker r),
                   invoked := invoked r @ [(resumeStep (breaker r) + 1, gradualResumeSteps cfg)],
                   pending := [?p],
                   ticks := ticks r + 1\<rparr>"
    using assms(1,2)
    by (cases ?s) (simp_all add: tickEvent_def resumeTick_def settlesBefore_def rejects_def Let_def)
  have nt: "nextTickTime cfg start (tickEvent cfg f start r) = nextTickTime cfg start r + ?I"
    by (simp add: tick nextTickTime_def algebra_simps)
  have later: "\<not> nextTickTime cfg start r + ?I \<le> nextTickTime cfg start r + ?d"
    using d by (simp only: add_le_cancel_left not_le)
  have pend: "pending (tickEvent cfg f start r) = [?p]"
    by (simp add: tick)
  have cond: "\<not> nextTickTime cfg start (tickEvent cfg f start r)
                  \<le> nextTickTime cfg start r + ?d"
    unfolding nt by (rule later)
  have second: "nextEvent cfg f start (tickEvent cfg f start r) = Some ?r2"
    by (simp add: nextEvent_def pend cond)
  have t: "nextTickTime cfg start r \<le> nextTickTime cfg start r + ?d"
    using d0 by (simp only: le_add_same_cancel1)
  have b: "breaker ?r2 = resumeSettle cfg (nextTickTime cfg start r + ?d) (resumeTick (breaker r))"
    by (simp add: tick settleEvent_def)
  have i: "invoked ?r2 = invoked r @ [(resumeStep (breaker r) + 1, gradualResumeSteps cfg)]"
    by (simp add: tick settleEvent_def)
  have fs: "failedSteps ?r2 =
              (if rejects ?s then failedSteps r @ [resumeStep (breaker r) + 1] else failedSteps r)"
    by (simp add: tick settleEvent_def resumeTick_def)
  have p: "pending ?r2 = []"
    by (simp add: tick settleEvent_def)
  have k: "ticks ?r2 = ticks r + 1"
    by (simp add: tick settleEvent_def)
  have res: "resolved ?r2 = (resolved r \<or> resumeStep (breaker r) + 1 \<ge> gradualResumeSteps cfg)"
    by (simp add: tick settleEvent_def resumeTick_def)
  from t first second b i fs p k res show ?thesis by blast
qed

lemma nextTickTime_ge:
  "0 \<le> ticks r \<Longrightarrow> start \<le> nextTickTime cfg start r"
  by (simp add: nextTickTime_def)

lemma resumeSettle_last:
  assumes "isOpen cb" and "\<not> cooldownPending cfg now cb" and "gradualResumeSteps cfg \<le> resumeStep cb + 1"
  shows "resumeSettle cfg now (resumeTick cb)
         = cb\<lparr>isOpen := False, triggerReason := None, triggeredAt := None,
              consecutiveFailures := 0, resumeStep := 0, resumeInterval := False\<rparr>"
  using assms by (simp add: resumeSettle_def resumeTick_def reset_def cooldownPending_def)

lemma resumeSettle_earlier:
  assumes "resumeStep cb + 1 < gradualResumeSteps cfg"
  shows "resumeSettle cfg now (resumeTick cb) = resumeTick cb"
  using assms by (simp add: resumeSettle_def resumeTick_def)

text \<open>
  The schedule the claim has in mind: every callback settles before the next tick. Then
  the run invokes the callback with the steps 1 to N in order and nothing else, logs the
  rejecting steps, and ends with the breaker closed, the timer cleared and the promise
  resolved.
\<close>

lemma runEvents_prompt:
  assumes "\<forall>k. resumeStep (breaker r) < k \<and> k \<le> gradualResumeSteps cfg \<longrightarrow>
             settlesBefore (max 1 (gradualResumeIntervalMs cfg)) (f k (gradualResumeSteps cfg))"
    and "pending r = []" and "resumeInterval (breaker r)" and "isOpen (breaker r)"
    and "\<not> cooldownPending cfg start (breaker r)" and "0 \<le> ticks r"
    and "nat (gradualResumeSteps cfg - resumeStep (breaker r)) = Suc m"
    and "2 * Suc m \<le> fuel"
  shows "\<exists>r'. runEvents fuel cfg f start r = Some r'
           \<and> invoked r' = invoked r @ map (\<lambda>k. (k, gradualResumeSteps cfg))
                                         [resumeStep (breaker r) + 1 .. gradualResumeSteps cfg]
           \<and> failedSteps r' = failedSteps r @ filter (\<lambda>k. rejects (f k (gradualResumeSteps cfg)))
                                         [resumeStep (breaker r) + 1 .. gradualResumeSteps cfg]
           \<and> \<not> isOpen (breaker r') \<and> consecutiveFailures (breaker r') = 0
           \<and> \<not> resumeInterval (breaker r') \<and> pending r' = [] \<and> resolved r'"
  using assms
proof (induction m arbitrary: r fuel)
  case 0
  let ?N = "gradualResumeSteps cfg"
  let ?s = "resumeStep (breaker r)"
  have N: "?N = ?s + 1" using "0.prems"(7) by simp
  have sb: "settlesBefore (max 1 (gradualResumeIntervalMs cfg)) (f (?s + 1) ?N)"
    using "0.prems"(1) N by simp
  from prompt_tick [where f = f and cfg = cfg and r = r and start = start, OF sb "0.prems"(2,3)]
  obtain t r2 where t: "nextTickTime cfg start r \<le> t"
    and e1: "nextEvent cfg f start r = Some (tickEvent cfg f start r)"
    and e2: "nextEvent cfg f start (tickEvent cfg f start r) = Some r2"
    and b: "breaker r2 = resumeSettle cfg t (resumeTick (breaker r))"
    and i: "invoked r2 = invoked r @ [(?s + 1, ?N)]"
    and fs: "failedSteps r2 = (if rejects (f (?s + 1) ?N) then failedSteps r @ [?s + 1]
                               else failedSteps r)"
    and p: "pending r2 = []"
    and res: "resolved r2 = (resolved r \<or> ?s + 1 \<ge> ?N)"
    by blast
  have "start \<le> t" using t nextTickTime_ge [OF "0.prems"(6), of start cfg] by simp
  then have cool: "\<not> cooldownPending cfg t (breaker r)"
    using "0.prems"(5) by (auto simp: cooldownPending_def split: option.splits if_splits)
  have b': "breaker r2 = (breaker r)\<lparr>isOpen := False, triggerReason := None, triggeredAt := None,
              consecutiveFailures := 0, resumeStep := 0, resumeInterval := False\<rparr>"
    unfolding b using resumeSettle_last [OF "0.prems"(4) cool] N by simp
  have q: "nextEvent cfg f start r2 = None"
    by (simp add: nextEvent_def p b')
  obtain fuel' where fuel: "fuel = Suc (Suc fuel')"
    using "0.prems"(8) by (cases fuel; cases "fuel - 1") auto
  have run: "runEvents fuel cfg f start r = Some r2"
    unfolding fuel runEvents_two_steps [OF e1 e2] by (rule runEvents_quiescent [OF q])
  have up: "[?s + 1 .. ?N] = [?s + 1]" using N by simp
  have inv0: "invoked r2 = invoked r @ map (\<lambda>k. (k, ?N)) [?s + 1]"
    by (simp add: i)
  have fs0: "failedSteps r2 = failedSteps r @ filter (\<lambda>k. rejects (f k ?N)) [?s + 1]"
    by (simp add: fs)
  have closed: "\<not> isOpen (breaker r2)" "consecutiveFailures (breaker r2) = 0"
               "\<not> resumeInterval (breaker r2)"
    by (simp_all add: b')
  have res0: "resolved r2" using res N by simp
  show ?case
    unfolding up using run inv0 fs0 closed p res0 by blast
next
  case (Suc m)
  let ?N = "gradualResumeSteps cfg"
  let ?s = "resumeStep (breaker r)"
  have N: "?s + 1 < ?N" using Suc.prems(7) by simp
  have sb: "settlesBefore (max 1 (gradualResumeIntervalMs cfg)) (f (?s + 1) ?N)"
    using Suc.prems(1) N by simp
  from prompt_tick [where f = f and cfg = cfg and r = r and start = start, OF sb Suc.prems(2,3)]
  obtain t r2 where t: "nextTickTime cfg start r \<le> t"
    and e1: "nextEvent cfg f start r = Some (tickEvent cfg f start r)"
    and e2: "nextEvent cfg f start (tickEvent cfg f start r) = Some r2"
    and b: "breaker r2 = resumeSettle cfg t (resumeTick (breaker r))"
    and i: "invoked r2 = invoked r @ [(?s + 1, ?N)]"
    and fs: "failedSteps r2 = (if rejects (f (?s + 1) ?N) then failedSteps r @ [?s + 1]
                               else failedSteps r)"
    and p: "pending r2 = []"
    and k: "ticks r2 = ticks r + 1"
    and res: "resolved r2 = (resolved r \<or> ?s + 1 \<ge> ?N)"
    by blast
  have b': "breaker r2 = resumeTick (breaker r)"
    unfolding b by (rule resumeSettle_earlier [OF N])
  have s2: "resumeStep (breaker r2) = ?s + 1" by (simp add: b' resumeTick_def)
  obtain fuel' where fuel: "fuel = Suc (Suc fuel')" and fuel': "2 * Suc m \<le> fuel'"
    using Suc.prems(8) by (cases fuel; cases "fuel - 1") auto
  have a1: "\<forall>k. resumeStep (breaker r2) < k \<and> k \<le> ?N \<longrightarrow>
              settlesBefore (max 1 (gradualResumeIntervalMs cfg)) (f k ?N)"
    using Suc.prems(1) s2 by simp
  have a3: "resumeInterval (breaker r2)" using Suc.prems(3) by (simp add: b' resumeTick_def)
  have a4: "isOpen (breaker r2)" using Suc.prems(4) by (simp add: b' resumeTick_def)
  have a5: "\<not> cooldownPending cfg start (breaker r2)"
    using Suc.prems(5) by (simp add: b' resumeTick_def cooldownPending_def)
  have a6: "0 \<le> ticks r2" using Suc.prems(6) k by simp
  have a7: "nat (?N - resumeStep (breaker r2)) = Suc m" using Suc.prems(7) s2 by simp
  from Suc.IH [OF a1 p a3 a4 a5 a6 a7 fuel']
  obtain r' where run': "runEvents fuel' cfg f start r2 = Some r'"
    and i': "invoked r' = invoked r2 @ map (\<lambda>k. (k, ?N)) [resumeStep (breaker r2) + 1 .. ?N]"
    and fs': "failedSteps r' = failedSteps r2 @ filter (\<lambda>k. rejects (f k ?N))
                                  [resumeStep (breaker r2) + 1 .. ?N]"
    and rest: "\<not> isOpen (breaker r')" "consecutiveFailures (breaker r') = 0"
              "\<not> resumeInterval (breaker r')" "pending r' = []" "resolved r'"
    by blast
  have run: "runEvents fuel cfg f start r = Some r'"
    unfolding fuel runEvents_two_steps [OF e1 e2] by (rule run')
  have up: "[?s + 1 .. ?N] = (?s + 1) # [?s + 1 + 1 .. ?N]"
    using N by (simp add: upto_rec1)
  have inv1: "invoked r' = invoked r @ map (\<lambda>k. (k, ?N)) ((?s + 1) # [?s + 1 + 1 .. ?N])"
    by (simp add: i' i s2)
  have fs1: "failedSteps r' = failedSteps r @ filter (\<lambda>k. rejects (f k ?N))
                                  ((?s + 1) # [?s + 1 + 1 .. ?N])"
    by (simp add: fs' fs s2)
  show ?case
    unfolding up using run inv1 fs1 rest by blast
qed

lemma gradualResume_started:
  assumes "isOpen cb" and "\<not> cooldownPending cfg now cb"
  shows "gradualResume cfg f now fuel cb =
           runEvents fuel cfg f now
             \<lparr>breaker = cb\<lparr>resumeStep := 0, resumeInterval := True\<rparr>, invoked = [],
              failedSteps = [], pending = [], ticks = 0, resolved = False\<rparr>"
  using assms by (simp add: gradualResume_def resumeStart_def)

lemma gradualResume_prompt:
  assumes "isOpen cb" and "\<not> cooldownPending cfg now cb"
    and "1 \<le> gradualResumeSteps cfg"
    and "\<forall>k. 1 \<le> k \<and> k \<le> gradualResumeSteps cfg \<longrightarrow>
           settlesBefore (max 1 (gradualResumeIntervalMs cfg)) (f k (gradualResumeSteps cfg))"
    and "2 * nat (gradualResumeSteps cfg) \<le> fuel"
  shows "\<exists>r'. gradualResume cfg f now fuel cb = Some r'
           \<and> invoked r' = map (\<lambda>k. (k, gradualResumeSteps cfg)) [1 .. gradualResumeSteps cfg]
           \<and> failedSteps r' = filter (\<lambda>k. rejects (f k (gradualResumeSteps cfg)))
                                  [1 .. gradualResumeSteps cfg]
           \<and> \<not> isOpen (breaker r') \<and> consecutiveFailures (breaker r') = 0
           \<and> \<not> resumeInterval (breaker r') \<and> pending r' = [] \<and> resolved r'"
proof -
  let ?N = "gradualResumeSteps cfg"
  let ?r = "\<lparr>breaker = cb\<lparr>resumeStep := 0, resumeInterval := True\<rparr>, invoked = [],
             failedSteps = [], pending = [], ticks = 0, resolved = False\<rparr>"
  obtain m where m: "nat ?N = Suc m"
    using assms(3) by (cases "nat ?N") simp_all
  have a1: "\<forall>k. resumeStep (breaker ?r) < k \<and> k \<le> ?N \<longrightarrow>
              settlesBefore (max 1 (gradualResumeIntervalMs cfg)) (f k ?N)"
    using assms(4) by simp
  have a2: "pending ?r = []" by simp
  have a3: "resumeInterval (breaker ?r)" by simp
  have a4: "isOpen (breaker ?r)" using assms(1) by simp
  have a5: "\<not> cooldownPending cfg now (breaker ?r)"
    using assms(2) by (simp add: cooldownPending_def)
  have a6: "0 \<le> ticks ?r" by simp
  have a7: "nat (?N - resumeStep (breaker ?r)) = Suc m" using m by simp
  have a8: "2 * Suc m \<le> fuel" using assms(5) m by simp
  from runEvents_prompt [where f = f and cfg = cfg and r = ?r and start = now and m = m
                           and fuel = fuel, OF a1 a2 a3 a4 a5 a6 a7 a8]
  obtain r' where run: "runEvents fuel cfg f now ?r = Some r'"
    and i: "invoked r' = invoked ?r @ map (\<lambda>k. (k, ?N)) [resumeStep (breaker ?r) + 1 .. ?N]"
    and fs: "failedSteps r' = failedSteps ?r @ filter (\<lambda>k. rejects (f k ?N))
                                 [resumeStep (breaker ?r) + 1 .. ?N]"
    and rest: "\<not> isOpen (breaker r')" "consecutiveFailures (breaker r') = 0"
              "\<not> resumeInterval (breaker r')" "pending r' = []" "resolved r'"
    by blast
  have g: "gradualResume cfg f now fuel cb = Some r'"
    unfolding gradualResume_started [OF assms(1,2)] by (rule run)
  have i': "invoked r' = map (\<lambda>k. (k, ?N)) [1 .. ?N]" using i by simp
  have fs': "failedSteps r' = filter (\<lambda>k. rejects (f k ?N)) [1 .. ?N]" using fs by simp
  from g i' fs' rest show ?thesis by blast
qed

text \<open>
  A callback that never settles: the code after the \<^verbatim>\<open>await\<close> is never reached, the timer
  is never cleared, the breaker stays open and the promise of \<open>gradualResume\<close> never
  resolves. No amount of fuel ends the run.
\<close>

lemma runEvents_never_settles:
  assumes "pending r = []" and "resumeInterval (breaker r)"
  shows "runEvents fuel cfg (\<lambda>step total. Never) start r = None"
  using assms
proof (induction fuel arbitrary: r)
  case 0
  then show ?case by (simp add: nextEvent_def)
next
  case (Suc fuel)
  let ?r' = "tickEvent cfg (\<lambda>step total. Never) start r"
  have e: "nextEvent cfg (\<lambda>step total. Never) start r = Some ?r'"
    using Suc.prems by (simp add: nextEvent_def)
  have p: "pending ?r' = []" using Suc.prems(1) by (simp add: tickEvent_def Let_def)
  have i: "resumeInterval (breaker ?r')"
    using Suc.prems(2) by (simp add: tickEvent_def resumeTick_def Let_def)
  show ?case using e Suc.IH [OF p i] by simp
qed

lemma nextEvent_never_settles:
  assumes "pending r = []" and "resumeInterval (breaker r)"
  shows "nextEvent cfg (\<lambda>step total. Never) start r
           = Some (r\<lparr>breaker := (breaker r)\<lparr>resumeStep := resumeStep (breaker r) + 1\<rparr>,
                     invoked := invoked r @ [(resumeStep (breaker r) + 1, gradualResumeSteps cfg)],
                     ticks := ticks r + 1\<rparr>)"
  using assms by (simp add: nextEvent_def tickEvent_def resumeTick_def Let_def)

lemma gradualResume_never_settles:
  assumes "isOpen cb" and "\<not> cooldownPending cfg now cb"
  shows "gradualResume cfg (\<lambda>step total. Never) now fuel cb = None"
  unfolding gradualResume_started [OF assms]
  by (rule runEvents_never_settles) simp_all

text \<open>
  The first tick runs before the step count is compared, so a configuration with zero
  steps (which the configuration schema rejects) still invokes the callback once.
\<close>

lemma gradualResume_zero_steps:
  "map_option invoked
     (gradualResume (defaultBreakerConfig\<lparr>gradualResumeSteps := 0\<rparr>) slowLastStep 400000 2
        (manualTrip 1000 ''halt'' newCircuitBreaker))
     = Some [(1, 0)]"
  by (simp add: resume_eval)

text \<open>
  Claim C5 at a concrete input. The breaker has the default configuration (5 steps, an
  interval of 60000 ms, a cooldown of 300000 ms), was tripped at time 1000 and is
  resumed at 400000, after the cooldown. The callback resolves after 100 ms at the steps
  1 to 4 and after 90000 ms at step 5. The timer does not wait for it: the sixth tick
  fires at 760000, while the callback of step 5 (invoked at 700000) is still pending,
  sets \<open>resumeStep\<close> to 6 and invokes the callback with step 6 of 5. Only when that sixth
  callback has resolved is the timer cleared and the breaker reset. The run ends with
  the breaker closed, \<open>consecutiveFailures = 0\<close> and the promise resolved, but after six
  invocations of the callback, where the claim says exactly five.
\<close>

theorem gradualResume_slow_last_step:
  "isOpen (manualTrip 1000 ''halt'' newCircuitBreaker) \<and>
   cooldownPending defaultBreakerConfig 400000 (manualTrip 1000 ''halt'' newCircuitBreaker)
     = False \<and>
   gradualResumeSteps defaultBreakerConfig = 5 \<and>
   map_option invoked
     (gradualResume defaultBreakerConfig slowLastStep 400000 20
        (manualTrip 1000 ''halt'' newCircuitBreaker))
     = Some [(1, 5), (2, 5), (3, 5), (4, 5), (5, 5), (6, 5)] \<and>
   map_option failedSteps
     (gradualResume defaultBreakerConfig slowLastStep 400000 20
        (manualTrip 1000 ''halt'' newCircuitBreaker)) = Some [] \<and>
   map_option resolved
     (gradualResume defaultBreakerConfig slowLastStep 400000 20
        (manualTrip 1000 ''halt'' newCircuitBreaker)) = Some True \<and>
   map_option breaker
     (gradualResume defaultBreakerConfig slowLastStep 400000 20
        (manualTrip 1000 ''halt'' newCircuitBreaker)) = Some newCircuitBreaker"
  by (simp add: resume_eval)

section \<open>Properties of the rug-pull detector\<close>

lemma bn_div_exact:
  assumes "0 < b"
  shows "bn_div (k * b) b = Some k"
proof -
  have "sgn (k * b) * (\<bar>k * b\<bar> div \<bar>b\<bar>) = k"
    using assms by (simp add: abs_mult sgn_mult mult_sgn_abs)
  then show ?thesis using assms by (simp add: bn_div_def)
qed

lemma lpChange_drop_25:
  assumes "history \<noteq> []" and "0 < lpTokenSupply (last history)"
    and "(lpTokenSupply (last history) - current) * 100 = 25 * lpTokenSupply (last history)"
  shows "lpChange cfg current history = Some (- 25, True)"
proof -
  have e: "(current - lpTokenSupply (last history)) * 100 = (- 25) * lpTokenSupply (last history)"
    using assms(3) by (simp add: algebra_simps)
  have "bn_div ((current - lpTokenSupply (last history)) * 100) (lpTokenSupply (last history))
             = Some (- 25)"
    unfolding e by (rule bn_div_exact [OF assms(2)])
  then show ?thesis
    using assms(1)
    by (simp add: lpChange_def Let_def bn_toNumber_def boolToNumber_def truthy_def)
qed

lemma riskLevel_cases:
  "(riskLevel s = critical \<longleftrightarrow> 80 \<le> s) \<and>
   (riskLevel s = high \<longleftrightarrow> 60 \<le> s \<and> s < 80) \<and>
   (riskLevel s = medium \<longleftrightarrow> 40 \<le> s \<and> s < 60) \<and>
   (riskLevel s = low \<longleftrightarrow> s < 40)"
  by (simp add: riskLevel_def)

lemma calculateRisk_level:
  "level (calculateRisk cfg lp sc hc) = riskLevel (score (calculateRisk cfg lp sc hc)) \<and>
   shouldExit (calculateRisk cfg lp sc hc)
     = (autoExitOnDetection cfg \<and>
        (level (calculateRisk cfg lp sc hc) = critical \<or> level (calculateRisk cfg lp sc hc) = high))"
  by (simp add: calculateRisk_def Let_def split: prod.splits)

text \<open>
  Claim C9. Let the LP status be the one \<open>checkLPTokens\<close> computes when the supply it
  reads is exactly 25 percent below the last recorded one, let the supply be unchanged
  (\<open>changePercent = 0\<close>), and let the top holder own 60 percent and be flagged (60 is
  above the concentration threshold). Then \<open>calculateRisk\<close> gives the score
  \<open>40 + 0 + 30 = 70\<close>, the level \<open>high\<close>, and \<open>shouldExit\<close> equal to the auto-exit flag
  of the configuration. For all inputs of \<open>calculateRisk\<close> the level is \<open>critical\<close> iff
  the score is at least 80, \<open>high\<close> iff it is at least 60 and below 80, \<open>medium\<close> iff it
  is at least 40 and below 60, and \<open>low\<close> otherwise; and \<open>shouldExit\<close> holds iff auto-exit
  is enabled and the level is \<open>high\<close> or \<open>critical\<close>.
\<close>

theorem calculateRisk_scenario:
  assumes "history \<noteq> []" and "0 < lpTokenSupply (last history)"
    and "(lpTokenSupply (last history) - current) * 100 = 25 * lpTokenSupply (last history)"
    and "SupplyChange.changePercent sc = 0"
    and "topHolderPercent hc = 60" and "HolderConcentration.suspicious hc"
  shows "score (calculateRisk cfg (fst (checkLPTokens cfg now (Some current) history)) sc hc) = 70 \<and>
         level (calculateRisk cfg (fst (checkLPTokens cfg now (Some current) history)) sc hc) = high \<and>
         shouldExit (calculateRisk cfg (fst (checkLPTokens cfg now (Some current) history)) sc hc)
           = autoExitOnDetection cfg \<and>
         (level (calculateRisk cfg lp' sc' hc') = critical
            \<longleftrightarrow> 80 \<le> score (calculateRisk cfg lp' sc' hc')) \<and>
         (level (calculateRisk cfg lp' sc' hc') = high
            \<longleftrightarrow> 60 \<le> score (calculateRisk cfg lp' sc' hc')
                \<and> score (calculateRisk cfg lp' sc' hc') < 80) \<and>
         (level (calculateRisk cfg lp' sc' hc') = medium
            \<longleftrightarrow> 40 \<le> score (calculateRisk cfg lp' sc' hc')
                \<and> score (calculateRisk cfg lp' sc' hc') < 60) \<and>
         (level (calculateRisk cfg lp' sc' hc') = low
            \<longleftrightarrow> score (calculateRisk cfg lp' sc' hc') < 40) \<and>
         (shouldExit (calculateRisk cfg lp' sc' hc')
            \<longleftrightarrow> autoExitOnDetection cfg \<and>
                (level (calculateRisk cfg lp' sc' hc') = high
                 \<or> level (calculateRisk cfg lp' sc' hc') = critical))"
proof -
  let ?lp = "fst (checkLPTokens cfg now (Some current) history)"
  have lp: "LPStatus.changePercent ?lp = - 25 \<and> LPStatus.suspicious ?lp"
    by (simp add: checkLPTokens_def lpChange_drop_25 [OF assms(1-3)] Let_def)
  have sc: "score (calculateRisk cfg ?lp sc hc) = 70"
    using lp assms(4-6) by (simp add: calculateRisk_def Let_def)
  have lv: "level (calculateRisk cfg ?lp sc hc) = high"
    using calculateRisk_level [of cfg ?lp sc hc] sc by (simp add: riskLevel_def)
  have ex: "shouldExit (calculateRisk cfg ?lp sc hc) = autoExitOnDetection cfg"
    using calculateRisk_level [of cfg ?lp sc hc] lv by simp
  show ?thesis
    using sc lv ex calculateRisk_level [of cfg lp' sc' hc']
      riskLevel_cases [of "score (calculateRisk cfg lp' sc' hc')"]
    by auto
qed

text \<open>The scenario with the default configuration: LP supply from 1000000 to 750000.\<close>

theorem calculateRisk_scenario_witness:
  "fst (checkLPTokens defaultRugPullConfig 30000 (Some 750000)
          [\<lparr>totalLiquidity = 1000000, lpTokenSupply = 1000000, lastChecked = 0,
            LPStatus.changePercent = 0, LPStatus.suspicious = False\<rparr>])
     = \<lparr>totalLiquidity = 750000, lpTokenSupply = 750000, lastChecked = 30000,
        LPStatus.changePercent = - 25, LPStatus.suspicious = True\<rparr> \<and>
   calculateRisk defaultRugPullConfig
     (fst (checkLPTokens defaultRugPullConfig 30000 (Some 750000)
             [\<lparr>totalLiquidity = 1000000, lpTokenSupply = 1000000, lastChecked = 0,
               LPStatus.changePercent = 0, LPStatus.suspicious = False\<rparr>]))
     \<lparr>currentSupply = 1000000, previousSupply = 1000000, SupplyChange.changePercent = 0,
      SupplyChange.timestamp = 30000, SupplyChange.suspicious = False\<rparr>
     \<lparr>topHolderPercent = 60, top10HolderPercent = 75, totalHolders = 20,
      HolderConcentration.suspicious = True\<rparr>
     = \<lparr>level = high, score = 70, reasons = [LPDecreased 25, TopHolderOwns 60],
        shouldExit = True\<rparr>"
proof -
  let ?history = "[\<lparr>totalLiquidity = 1000000, lpTokenSupply = 1000000, lastChecked = 0,
                    LPStatus.changePercent = 0, LPStatus.suspicious = False\<rparr>]"
  let ?sc = "\<lparr>currentSupply = 1000000, previousSupply = 1000000, SupplyChange.changePercent = 0,
              SupplyChange.timestamp = 30000, SupplyChange.suspicious = False\<rparr>"
  let ?hc = "\<lparr>topHolderPercent = 60, top10HolderPercent = 75, totalHolders = 20,
              HolderConcentration.suspicious = True\<rparr>"
  let ?lp = "fst (checkLPTokens defaultRugPullConfig 30000 (Some 750000) ?history)"
  have h1: "?history \<noteq> []" by simp
  have h2: "0 < lpTokenSupply (last ?history)" by simp
  have h3: "(lpTokenSupply (last ?history) - 750000) * 100 = 25 * lpTokenSupply (last ?history)"
    by simp
  have h4: "SupplyChange.changePercent ?sc = 0" by simp
  have h5: "topHolderPercent ?hc = 60" by simp
  have h6: "HolderConcentration.suspicious ?hc" by simp
  have lp: "?lp = \<lparr>totalLiquidity = 750000, lpTokenSupply = 750000, lastChecked = 30000,
                    LPStatus.changePercent = - 25, LPStatus.suspicious = True\<rparr>"
    by (simp add: checkLPTokens_def lpChange_def bn_div_def bn_toNumber_def boolToNumber_def
          truthy_def defaultRugPullConfig_def Let_def)
  have r: "reasons (calculateRisk defaultRugPullConfig ?lp ?sc ?hc)
           = [LPDecreased 25, TopHolderOwns 60]"
    by (simp add: lp) (simp add: calculateRisk_def Let_def)
  have a: "autoExitOnDetection defaultRugPullConfig"
    by (simp add: defaultRugPullConfig_def)
  from calculateRisk_scenario [OF h1 h2 h3 h4 h5 h6, of defaultRugPullConfig 30000] lp r a
  show ?thesis by (intro conjI RugPullRisk.equality) simp_all
qed

section \<open>Properties of the market maker\<close>

subsection \<open>Token amounts\<close>

text \<open>
  One and a half tokens at 9 decimals; an amount at zero decimals; a negative amount with
  fewer, as many and more digits than decimals.
\<close>

lemma toUIAmountNumber_examples:
  "toUIAmountNumber 1500000000 9 = 1.5 \<and>
   toUIAmountNumber 123 0 = 0.123 \<and>
   toUIAmountNumber (- 5) 9 = 0 \<and>
   toUIAmountNumber (- 5) 1 = - 0.5 \<and>
   toUIAmountNumber (- 12345) 3 = - 12.345"
  by (simp add: toUIAmountNumber_def digitCount.simps)

subsection \<open>Cost basis\<close>

lemma toUIAmountNumber_nonneg:
  "0 < decimals \<Longrightarrow> 0 \<le> tokenAmount \<Longrightarrow>
   toUIAmountNumber tokenAmount decimals = real_of_int tokenAmount / 10 ^ decimals"
  by (simp add: toUIAmountNumber_def)

lemma updateInventoryOnFill_first_buy:
  "avgBuyPrice invt = 0 \<Longrightarrow>
   avgBuyPrice (updateInventoryOnFill cfg now buy order invt) = PlacedOrder.price order"
  by (simp add: updateInventoryOnFill_def Let_def)

lemma weighted_average_scaled:
  fixes d :: real
  assumes "d \<noteq> 0"
  shows "((b / d - out / d) * a + b / d * p) / (b / d) = ((b - out) * a + b * p) / b"
proof -
  have "(b / d - out / d) * a + b / d * p = ((b - out) * a + b * p) / d"
    using assms by (simp add: field_simps)
  then show ?thesis using assms by simp
qed

text \<open>
  A buy on a non-zero cost basis that leaves a positive base balance, with at least one
  base decimal: the fill price is weighted with the whole new balance.
\<close>

lemma updateInventoryOnFill_next_buy:
  assumes "avgBuyPrice invt \<noteq> 0" and "0 < baseDecimals cfg"
    and "0 \<le> outAmount order" and "0 < base invt + outAmount order"
  shows "avgBuyPrice (updateInventoryOnFill cfg now buy order invt)
         = (real_of_int (base invt) * avgBuyPrice invt
            + real_of_int (base invt + outAmount order) * PlacedOrder.price order)
           / real_of_int (base invt + outAmount order)"
proof -
  have b: "toUIAmountNumber (base invt + outAmount order) (baseDecimals cfg)
           = real_of_int (base invt + outAmount order) / 10 ^ baseDecimals cfg"
    using assms(2,4) by (simp add: toUIAmountNumber_nonneg)
  have out: "toUIAmountNumber (outAmount order) (baseDecimals cfg)
             = real_of_int (outAmount order) / 10 ^ baseDecimals cfg"
    using assms(2,3) by (simp add: toUIAmountNumber_nonneg)
  show ?thesis
    using assms(1)
      weighted_average_scaled [of "10 ^ baseDecimals cfg"
        "real_of_int (base invt + outAmount order)" "real_of_int (outAmount order)"
        "avgBuyPrice invt" "PlacedOrder.price order"]
    by (simp add: updateInventoryOnFill_def b out Let_def)
qed

lemma updateInventoryOnFill_equal_buys:
  assumes "0 < s" and "p \<noteq> 0" and "outAmount order1 = s" and "outAmount order2 = s"
    and "PlacedOrder.price order1 = p" and "PlacedOrder.price order2 = p'"
    and "base invt = 0" and "avgBuyPrice invt = 0" and "0 < baseDecimals cfg"
  shows "avgBuyPrice (updateInventoryOnFill cfg now2 buy order2
                        (updateInventoryOnFill cfg now1 buy order1 invt)) = p / 2 + p'"
proof -
  let ?i1 = "updateInventoryOnFill cfg now1 buy order1 invt"
  have a: "avgBuyPrice ?i1 = p" "base ?i1 = s"
    using assms by (simp_all add: updateInventoryOnFill_def Let_def)
  have n: "avgBuyPrice ?i1 \<noteq> 0" using a(1) assms(2) by simp
  have o: "0 \<le> outAmount order2" using assms(1,4) by simp
  have b: "0 < base ?i1 + outAmount order2" using a(2) assms(1,4) by simp
  have "avgBuyPrice (updateInventoryOnFill cfg now2 buy order2 ?i1)
        = (real_of_int s * p + real_of_int (s + s) * p') / real_of_int (s + s)"
    using updateInventoryOnFill_next_buy [OF n assms(9) o b, of now2] a assms(4,6) by simp
  also have "\<dots> = p / 2 + p'"
    using assms(1) by (simp add: field_simps)
  finally show ?thesis .
qed

text \<open>
  Claim C3 at a concrete input: an inventory without base tokens and with cost basis 0,
  and two buy fills of one token (\<open>10 ^ 9\<close> units) each, both at price 100. After the
  first fill the cost basis is 100, as claimed. After the second fill the claim asks for
  \<open>(100 + 100) / 2 = 100\<close>; \<open>updateInventoryOnFill\<close> yields 150, because it weighs the
  fill price with the base amount after the fill instead of with the filled amount. In
  general two equal buys at \<open>p\<close> and \<open>p'\<close> yield \<open>p / 2 + p'\<close>
  (\<open>updateInventoryOnFill_equal_buys\<close>).
\<close>

theorem updateInventoryOnFill_two_buys:
  "avgBuyPrice
     (updateInventoryOnFill defaultMarketMakerConfig 1000 buy
        \<lparr>orderKey = ''order1'', signature = ''sig1'', inputMint = ''QUOTE'', outputMint = ''BASE'',
         inAmount = 100000000, outAmount = 1000000000, PlacedOrder.price = 100,
         PlacedOrder.timestamp = 900, PlacedOrder.type = limit\<rparr>
        \<lparr>base = 0, quote = 1000000000, avgBuyPrice = 0, lastUpdate = 0\<rparr>) = 100 \<and>
   avgBuyPrice
     (updateInventoryOnFill defaultMarketMakerConfig 2000 buy
        \<lparr>orderKey = ''order2'', signature = ''sig2'', inputMint = ''QUOTE'', outputMint = ''BASE'',
         inAmount = 100000000, outAmount = 1000000000, PlacedOrder.price = 100,
         PlacedOrder.timestamp = 1900, PlacedOrder.type = limit\<rparr>
        (updateInventoryOnFill defaultMarketMakerConfig 1000 buy
           \<lparr>orderKey = ''order1'', signature = ''sig1'', inputMint = ''QUOTE'', outputMint = ''BASE'',
            inAmount = 100000000, outAmount = 1000000000, PlacedOrder.price = 100,
            PlacedOrder.timestamp = 900, PlacedOrder.type = limit\<rparr>
           \<lparr>base = 0, quote = 1000000000, avgBuyPrice = 0, lastUpdate = 0\<rparr>)) = 150 \<and>
   (150::real) \<noteq> (100 + 100) / 2"
  by (simp add: updateInventoryOnFill_def toUIAmountNumber_def defaultMarketMakerConfig_def Let_def)

subsection \<open>Target prices\<close>

lemma defaultTargetPrices_symmetric:
  "snd (defaultTargetPrices cfg w target ratio mid) - mid
   = mid - fst (defaultTargetPrices cfg w target ratio mid)"
  by (simp add: defaultTargetPrices_def Let_def algebra_simps)

text \<open>
  Claim C4 at a concrete input, on the default calculation of \<open>calculateTargetPrices\<close>
  (strategies disabled): mid price 100, spread 1 percent, an empty volatility window
  (volatility factor 0) and a target ratio of 0.5. With a balanced inventory the quote is
  99.5 / 100.5, as claimed. With 80 percent of the value in the base asset the claim asks
  for a wider ask, a tighter bid and an unchanged total spread; the default calculation
  yields 99.35 / 100.65: the bid moves away from the mid price as well and the total
  spread grows from 1 to 1.3. The default calculation is symmetric around the mid price
  for every input (\<open>defaultTargetPrices_symmetric\<close>).
\<close>

theorem calculateTargetPrices_default_skew:
  "calculateInventoryRatio defaultMarketMakerConfig
     \<lparr>base = 5000000000, quote = 500000000, avgBuyPrice = 100, lastUpdate = 0\<rparr> 100 = 0.5 \<and>
   calculateInventoryRatio defaultMarketMakerConfig
     \<lparr>base = 8000000000, quote = 200000000, avgBuyPrice = 100, lastUpdate = 0\<rparr> 100 = 0.8 \<and>
   calculateVolatilityFactor [] = 0 \<and>
   calculateTargetPrices defaultMarketMakerConfig None [] (Some 0.5)
     (createAggregatedPrice defaultAggregatorConfig 0 100 [])
     \<lparr>base = 5000000000, quote = 500000000, avgBuyPrice = 100, lastUpdate = 0\<rparr>
     = (99.5, 100.5) \<and>
   calculateTargetPrices defaultMarketMakerConfig None [] (Some 0.5)
     (createAggregatedPrice defaultAggregatorConfig 0 100 [])
     \<lparr>base = 8000000000, quote = 200000000, avgBuyPrice = 100, lastUpdate = 0\<rparr>
     = (99.35, 100.65) \<and>
   (99.35::real) < 99.5 \<and> (100.65::real) - 99.35 \<noteq> 100.5 - 99.5"
  by (simp add: calculateTargetPrices_def defaultTargetPrices_def calculateInventoryRatio_def
        calculateVolatilityFactor_def toUIAmountNumber_def truthy_def
        defaultMarketMakerConfig_def createAggregatedPrice_def Let_def)

text \<open>
  The same two inventories on the strategy path of \<open>calculateTargetPrices\<close>, with the
  default spread controller, no pause and a spread multiplier of 1: the quote is
  99.5 / 100.5 when balanced and 99.65 / 100.65 at 80 percent base, so there the ask
  widens, the bid tightens and the total spread stays 1.
\<close>

lemma calculateTargetPrices_strategy_skew:
  "calculateTargetPrices defaultMarketMakerConfig
     (Some (Some (getRecommendations createDefaultStrategyConfig False 1 0
        (calculateInventoryRatio defaultMarketMakerConfig
           \<lparr>base = 5000000000, quote = 500000000, avgBuyPrice = 100, lastUpdate = 0\<rparr> 100))))
     [] (Some 0.5) (createAggregatedPrice defaultAggregatorConfig 0 100 [])
     \<lparr>base = 5000000000, quote = 500000000, avgBuyPrice = 100, lastUpdate = 0\<rparr>
     = (99.5, 100.5) \<and>
   calculateTargetPrices defaultMarketMakerConfig
     (Some (Some (getRecommendations createDefaultStrategyConfig False 1 0
        (calculateInventoryRatio defaultMarketMakerConfig
           \<lparr>base = 8000000000, quote = 200000000, avgBuyPrice = 100, lastUpdate = 0\<rparr> 100))))
     [] (Some 0.5) (createAggregatedPrice defaultAggregatorConfig 0 100 [])
     \<lparr>base = 8000000000, quote = 200000000, avgBuyPrice = 100, lastUpdate = 0\<rparr>
     = (99.65, 100.65)"
  by (simp add: calculateTargetPrices_def getRecommendations_def calculateOptimalSpread_def
        calculateAsymmetricSpread_def calculateInventoryAdjustment_def
        calculateVolatilityAdjustment_def ensureMinimumProfit_def createDefaultStrategyConfig_def
        calculateInventoryRatio_def toUIAmountNumber_def
        defaultMarketMakerConfig_def createAggregatedPrice_def Let_def)

end
